theory Spec2Isabelle
  imports Complex_Main "HOL-Library.AList" "HOL-Library.Word"
begin

section \<open>Python values\<close>

text \<open>
  The feedback pipeline of \<^verbatim>\<open>sentry/feedback/usecases/create_feedback.py\<close> works on
  JSON-like event dictionaries.  Immutable Python values are atoms; a float is held as the
  rational it denotes (NaN and the infinities do not occur in decoded events).  A Python
  string is the list of its Unicode code points; \<open>ustr\<close> gives the string of an ASCII
  literal of this text.  The keys the code looks up are ASCII literals, and the keys of a
  dictionary are held as such.
\<close>

type_synonym ustring = "nat list"

definition ustr :: "string \<Rightarrow> ustring" where
  "ustr s = map of_char s"

datatype atom = ANone | ABool bool | AInt int | AFloat rat | AStr ustring

abbreviation AText :: "string \<Rightarrow> atom" where "AText s \<equiv> AStr (ustr s)"

datatype jval = JAtom atom | JArr "jval list" | JObj "(string \<times> jval) list"

abbreviation JNone :: jval where "JNone \<equiv> JAtom ANone"
abbreviation JBool :: "bool \<Rightarrow> jval" where "JBool b \<equiv> JAtom (ABool b)"
abbreviation JInt :: "int \<Rightarrow> jval" where "JInt i \<equiv> JAtom (AInt i)"
abbreviation JFloat :: "rat \<Rightarrow> jval" where "JFloat r \<equiv> JAtom (AFloat r)"
abbreviation JStr :: "string \<Rightarrow> jval" where "JStr s \<equiv> JAtom (AText s)"

text \<open>
  The event dictionary itself and the containers directly below it (\<^verbatim>\<open>contexts\<close>,
  \<^verbatim>\<open>user\<close>, \<^verbatim>\<open>tags\<close>, ...) are mutated by the code and shared between dictionaries, so
  a slot of a top-level dictionary holds either an atom or a reference into a store of
  objects.  What lies inside a stored object is only read or replaced as a whole, and is
  a plain tree.
\<close>

type_synonym addr = nat

datatype sval = Imm atom | Ref addr

type_synonym tdict = "(string \<times> sval) list"

type_synonym store = "addr \<Rightarrow> jval"

fun resolve :: "store \<Rightarrow> sval \<Rightarrow> jval" where
  "resolve h (Imm a) = JAtom a"
| "resolve h (Ref r) = h r"

definition snapshot :: "store \<Rightarrow> tdict \<Rightarrow> (string \<times> jval) list" where
  "snapshot h d = map (\<lambda>(k, v). (k, resolve h v)) d"

datatype error =
    KeyError | AttributeError | TypeError | ValueError | OverflowError | OSError
  | ValidationError | PublishError | DoesNotExist | RuntimeError

text \<open>Truth value testing (\<^verbatim>\<open>if x:\<close>, \<^verbatim>\<open>x or y\<close>).\<close>

fun truthy :: "jval \<Rightarrow> bool" where
  "truthy (JAtom ANone) = False"
| "truthy (JAtom (ABool b)) = b"
| "truthy (JAtom (AInt i)) = (i \<noteq> 0)"
| "truthy (JAtom (AFloat r)) = (r \<noteq> 0)"
| "truthy (JAtom (AStr s)) = (s \<noteq> [])"
| "truthy (JArr xs) = (xs \<noteq> [])"
| "truthy (JObj d) = (d \<noteq> [])"

text \<open>\<^verbatim>\<open>x.get(k)\<close> and \<^verbatim>\<open>x.get(k, default)\<close>: only a dict has the method.\<close>

fun py_get_default :: "jval \<Rightarrow> string \<Rightarrow> jval \<Rightarrow> error + jval" where
  "py_get_default (JObj d) k dflt = Inr (case map_of d k of None \<Rightarrow> dflt | Some v \<Rightarrow> v)"
| "py_get_default _ k dflt = Inl AttributeError"

definition py_get :: "jval \<Rightarrow> string \<Rightarrow> error + jval" where
  "py_get x k = py_get_default x k JNone"

text \<open>\<^verbatim>\<open>x[k]\<close> with a string key: a missing key of a dict is a KeyError, a string
  index into a list or a string and a subscript of any other atom are TypeErrors.\<close>

fun py_item :: "jval \<Rightarrow> string \<Rightarrow> error + jval" where
  "py_item (JObj d) k = (case map_of d k of None \<Rightarrow> Inl KeyError | Some v \<Rightarrow> Inr v)"
| "py_item _ k = Inl TypeError"

text \<open>The same two reads on a top-level dictionary, through the store.\<close>

definition top_get_default :: "store \<Rightarrow> tdict \<Rightarrow> string \<Rightarrow> jval \<Rightarrow> jval" where
  "top_get_default h d k dflt = (case map_of d k of None \<Rightarrow> dflt | Some v \<Rightarrow> resolve h v)"

definition top_get :: "store \<Rightarrow> tdict \<Rightarrow> string \<Rightarrow> jval" where
  "top_get h d k = top_get_default h d k JNone"

definition top_item :: "store \<Rightarrow> tdict \<Rightarrow> string \<Rightarrow> error + jval" where
  "top_item h d k = (case map_of d k of None \<Rightarrow> Inl KeyError | Some v \<Rightarrow> Inr (resolve h v))"

text \<open>
  \<^verbatim>\<open>str.strip()\<close> removes leading and trailing whitespace.  The whitespace of Python
  (\<^verbatim>\<open>str.isspace\<close>) is the 29 code points U+0009--U+000D, U+001C--U+0020, U+0085,
  U+00A0, U+1680, U+2000--U+200A, U+2028, U+2029, U+202F, U+205F and U+3000.
\<close>

definition is_space :: "nat \<Rightarrow> bool" where
  "is_space c =
     (c \<in> {0x09..0x0D} \<union> {0x1C..0x20} \<union> {0x85, 0xA0, 0x1680} \<union> {0x2000..0x200A}
          \<union> {0x2028, 0x2029, 0x202F, 0x205F, 0x3000})"

definition strip :: "ustring \<Rightarrow> ustring" where
  "strip s = rev (dropWhile is_space (rev (dropWhile is_space s)))"

fun py_strip :: "jval \<Rightarrow> error + ustring" where
  "py_strip (JAtom (AStr s)) = Inr (strip s)"
| "py_strip _ = Inl AttributeError"

section \<open>Records of the issue platform\<close>

datatype FeedbackCreationSource =
    NEW_FEEDBACK_ENVELOPE
  | NEW_FEEDBACK_DJANGO_ENDPOINT
  | USER_REPORT_DJANGO_ENDPOINT
  | USER_REPORT_ENVELOPE
  | CRASH_REPORT_EMBED_FORM
  | UPDATE_USER_REPORTS_TASK

fun source_value :: "FeedbackCreationSource \<Rightarrow> string" where
  "source_value NEW_FEEDBACK_ENVELOPE = ''new_feedback_envelope''"
| "source_value NEW_FEEDBACK_DJANGO_ENDPOINT = ''new_feedback_sentry_django_endpoint''"
| "source_value USER_REPORT_DJANGO_ENDPOINT = ''user_report_sentry_django_endpoint''"
| "source_value USER_REPORT_ENVELOPE = ''user_report_envelope''"
| "source_value CRASH_REPORT_EMBED_FORM = ''crash_report_embed_form''"
| "source_value UPDATE_USER_REPORTS_TASK = ''update_user_reports_task''"

definition UNREAL_FEEDBACK_UNATTENDED_MESSAGE :: string where
  "UNREAL_FEEDBACK_UNATTENDED_MESSAGE = ''Sent in the unattended mode''"

record IssueEvidence =
  ev_name :: string
  ev_value :: jval
  important :: bool

section \<open>\<^verbatim>\<open>make_evidence\<close>\<close>

text \<open>
  Each of the four feedback fields is copied when \<^verbatim>\<open>feedback.get(field)\<close> is truthy,
  the source is always added, and \<^verbatim>\<open>is_spam\<close> only when the verdict \<^verbatim>\<open>is True\<close>.
  \<^verbatim>\<open>evidence_data\<close> is a dict (insertion by key), \<^verbatim>\<open>evidence_display\<close> a list
  (appended to).  The verdict is \<^verbatim>\<open>bool | None\<close>.
\<close>

definition copy_field ::
  "jval \<Rightarrow> string \<Rightarrow> bool \<Rightarrow> (string \<times> jval) list \<times> IssueEvidence list
     \<Rightarrow> error + (string \<times> jval) list \<times> IssueEvidence list" where
  "copy_field feedback field imp acc =
     (case py_get feedback field of
        Inl e \<Rightarrow> Inl e
      | Inr v \<Rightarrow>
          if truthy v then
            (case py_item feedback field of
               Inl e \<Rightarrow> Inl e
             | Inr w \<Rightarrow>
                 Inr (AList.update field w (fst acc),
                      snd acc @ [\<lparr>ev_name = field, ev_value = w, important = imp\<rparr>]))
          else Inr acc)"

definition py_str_bool :: "bool \<Rightarrow> string" where
  "py_str_bool b = (if b then ''True'' else ''False'')"

definition make_evidence ::
  "jval \<Rightarrow> FeedbackCreationSource \<Rightarrow> bool option
     \<Rightarrow> error + (string \<times> jval) list \<times> IssueEvidence list" where
  "make_evidence feedback source is_message_spam =
     (case copy_field feedback ''associated_event_id'' False ([], []) of
        Inl e \<Rightarrow> Inl e
      | Inr a1 \<Rightarrow>
     (case copy_field feedback ''contact_email'' False a1 of
        Inl e \<Rightarrow> Inl e
      | Inr a2 \<Rightarrow>
     (case copy_field feedback ''message'' True a2 of
        Inl e \<Rightarrow> Inl e
      | Inr a3 \<Rightarrow>
     (case copy_field feedback ''name'' False a3 of
        Inl e \<Rightarrow> Inl e
      | Inr a4 \<Rightarrow>
          let a5 = (AList.update ''source'' (JStr (source_value source)) (fst a4),
                    snd a4 @ [\<lparr>ev_name = ''source'', ev_value = JStr (source_value source),
                               important = False\<rparr>])
          in if is_message_spam = Some True then
               Inr (AList.update ''is_spam'' (JBool True) (fst a5),
                    snd a5 @ [\<lparr>ev_name = ''is_spam'', ev_value = JStr (py_str_bool True),
                               important = False\<rparr>])
             else Inr a5))))"


section \<open>Collaborators outside the pipeline\<close>

text \<open>
  A \<^verbatim>\<open>datetime\<close> in UTC, held as its epoch seconds.  The conversions from and to a
  timestamp belong to the standard library and are collaborators below.
\<close>

datatype datetime = Datetime rat

datatype GroupType = FeedbackGroup | ErrorGroup

datatype GroupStatus = UNRESOLVED | RESOLVED | IGNORED

datatype GroupSubStatus = UNTIL_ESCALATING | FOREVER | NEW

datatype Outcome = ACCEPTED | FILTERED | RATE_LIMITED | INVALID

datatype DataCategory = ERROR | USER_REPORT_V2

text \<open>
  The occurrence keeps references to the event's \<^verbatim>\<open>event_id\<close> and \<^verbatim>\<open>level\<close> objects;
  the producer serialises it, so what is published is the occurrence with these two
  resolved in the store of that moment.
\<close>

record 'v IssueOccurrence =
  occ_id :: string
  occ_event_id :: 'v
  occ_project_id :: int
  fingerprint :: "string list"
  issue_title :: string
  subtitle :: jval
  resource_id :: "string option"
  evidence_data :: "(string \<times> jval) list"
  evidence_display :: "IssueEvidence list"
  occ_type :: GroupType
  detection_time :: datetime
  culprit :: string
  occ_level :: 'v

definition resolve_occurrence :: "store \<Rightarrow> sval IssueOccurrence \<Rightarrow> jval IssueOccurrence" where
  "resolve_occurrence h occ =
     \<lparr> occ_id = occ_id occ, occ_event_id = resolve h (occ_event_id occ),
       occ_project_id = occ_project_id occ, fingerprint = fingerprint occ,
       issue_title = issue_title occ, subtitle = subtitle occ,
       resource_id = resource_id occ, evidence_data = evidence_data occ,
       evidence_display = evidence_display occ, occ_type = occ_type occ,
       detection_time = detection_time occ, culprit = culprit occ,
       occ_level = resolve h (occ_level occ) \<rparr>"

record StatusChangeMessage =
  sc_fingerprint :: "string list"
  sc_project_id :: int
  new_status :: GroupStatus
  new_substatus :: GroupSubStatus

datatype payload =
    OCCURRENCE "jval IssueOccurrence" "(string \<times> jval) list"
  | STATUS_CHANGE StatusChangeMessage

record outcome_record =
  out_org_id :: int
  out_project_id :: int
  out_key_id :: "int option"
  out_outcome :: Outcome
  out_reason :: "string option"
  out_timestamp :: datetime
  out_event_id :: jval
  out_category :: DataCategory
  out_quantity :: int

datatype schema = EVENT_PAYLOAD_SCHEMA | LEGACY_EVENT_PAYLOAD_SCHEMA

datatype signal = first_feedback_received | first_new_feedback_received

text \<open>What one run does to the outside world, in the order it does it.\<close>

datatype effect =
    MetricsIncr string "(string \<times> jval) list"
  | LoggerException string
  | IsSpam jval
  | Uuid4 string
  | JsonschemaValidate schema
  | SendRobust signal
  | ProduceOccurrenceToKafka payload
  | TrackOutcome outcome_record

record project =
  project_pk :: int
  organization_id :: int
  organization_features :: "string list"
  project_options :: "(string \<times> jval) list"
  has_feedbacks :: bool
  has_new_feedbacks :: bool

definition features_has :: "string \<Rightarrow> project \<Rightarrow> bool" where
  "features_has name p = (name \<in> set (organization_features p))"

definition get_option :: "project \<Rightarrow> string \<Rightarrow> jval" where
  "get_option p key = (case map_of (project_options p) key of None \<Rightarrow> JNone | Some v \<Rightarrow> v)"

text \<open>
  The parts of the system the module imports but does not define: the project cache, the
  spam classifier (\<open>None\<close> when the call raises), the random source of \<^verbatim>\<open>uuid4\<close>, the
  clock, \<^verbatim>\<open>datetime.fromtimestamp(x, UTC)\<close> (which raises on what is no number or lies
  outside its range), \<^verbatim>\<open>datetime.timestamp\<close>, \<^verbatim>\<open>isoformat\<close> and \<^verbatim>\<open>repr\<close> of the standard
  library, the two JSON schemas of \<^verbatim>\<open>sentry.issues.json_schemas\<close>, the Kafka producer
  (\<open>False\<close> when the call raises) and \<^verbatim>\<open>sentry.utils.safe.get_path\<close>.
\<close>

record env =
  get_from_cache :: "int \<Rightarrow> project option"
  is_spam :: "jval \<Rightarrow> bool option"
  random_bits :: "nat \<Rightarrow> 128 word"
  now_isoformat :: string
  utcnow_timestamp :: rat
  fromtimestamp :: "jval \<Rightarrow> error + datetime"
  datetime_timestamp :: "datetime \<Rightarrow> rat"
  isoformat :: "datetime \<Rightarrow> string"
  py_repr :: "jval \<Rightarrow> ustring"
  schema_valid :: "schema \<Rightarrow> (string \<times> jval) list \<Rightarrow> bool"
  produce_ok :: "payload \<Rightarrow> bool"
  get_path :: "jval \<Rightarrow> string list \<Rightarrow> jval"

text \<open>\<^verbatim>\<open>uuid4().hex\<close>: the 32 hexadecimal digits of a 128-bit number.\<close>

definition hex_digit :: "nat \<Rightarrow> char" where
  "hex_digit n = ''0123456789abcdef'' ! (n mod 16)"

definition uuid_hex :: "128 word \<Rightarrow> string" where
  "uuid_hex w = map (\<lambda>i. hex_digit (unat w div 16 ^ (31 - i))) [0..<32]"

text \<open>\<^verbatim>\<open>str(x)\<close>: a string is itself, an int its decimal digits; floats and containers
  are printed by \<^verbatim>\<open>repr\<close>.\<close>

fun str_nat :: "nat \<Rightarrow> string" where
  "str_nat n = (if n < 10 then [hex_digit n] else str_nat (n div 10) @ [hex_digit (n mod 10)])"

declare str_nat.simps [simp del]

definition str_int :: "int \<Rightarrow> string" where
  "str_int i = (if i < 0 then CHR ''-'' # str_nat (nat (- i)) else str_nat (nat i))"

fun py_str :: "env \<Rightarrow> jval \<Rightarrow> ustring" where
  "py_str E (JAtom (AStr s)) = s"
| "py_str E (JAtom (AInt i)) = ustr (str_int i)"
| "py_str E (JAtom (ABool b)) = ustr (py_str_bool b)"
| "py_str E (JAtom ANone) = ustr ''None''"
| "py_str E v = py_repr E v"

section \<open>State, errors and effects\<close>

text \<open>
  A run threads the object store with its next free address and the number of
  \<^verbatim>\<open>uuid4()\<close> calls made.  It returns its result (a raise is \<open>Inl\<close>), the effects it had on
  the outside world in the order it had them, and the state it reached; what happened
  before a raise stays.
\<close>

record state =
  heap :: store
  nxt :: addr
  drawn :: nat

type_synonym 'a M = "state \<Rightarrow> (error + 'a) \<times> effect list \<times> state"

definition ret :: "'a \<Rightarrow> 'a M" where
  "ret x = (\<lambda>s. (Inr x, [], s))"

definition throw :: "error \<Rightarrow> 'a M" where
  "throw e = (\<lambda>s. (Inl e, [], s))"

definition bnd :: "'a M \<Rightarrow> ('a \<Rightarrow> 'b M) \<Rightarrow> 'b M" where
  "bnd m f =
     (\<lambda>s. case m s of
            (Inl e, es, s') \<Rightarrow> (Inl e, es, s')
          | (Inr x, es, s') \<Rightarrow> (case f x s' of (r, es', s'') \<Rightarrow> (r, es @ es', s'')))"

definition lift :: "error + 'a \<Rightarrow> 'a M" where
  "lift r = (case r of Inl e \<Rightarrow> throw e | Inr x \<Rightarrow> ret x)"

text \<open>\<^verbatim>\<open>try: m except Exception: handler\<close>.\<close>

definition catch :: "'a M \<Rightarrow> (error \<Rightarrow> 'a M) \<Rightarrow> 'a M" where
  "catch m handler =
     (\<lambda>s. case m s of
            (Inl e, es, s') \<Rightarrow> (case handler e s' of (r, es', s'') \<Rightarrow> (r, es @ es', s''))
          | (Inr x, es, s') \<Rightarrow> (Inr x, es, s'))"

definition emit :: "effect \<Rightarrow> unit M" where
  "emit e = (\<lambda>s. (Inr (), [e], s))"

definition with_heap :: "(store \<Rightarrow> 'a M) \<Rightarrow> 'a M" where
  "with_heap f = (\<lambda>s. f (heap s) s)"

definition alloc :: "jval \<Rightarrow> sval M" where
  "alloc v =
     (\<lambda>s. (Inr (Ref (nxt s)), [], s\<lparr>heap := (heap s)(nxt s := v), nxt := Suc (nxt s)\<rparr>))"

definition uuid4_hex :: "env \<Rightarrow> string M" where
  "uuid4_hex E =
     (\<lambda>s. let u = uuid_hex (random_bits E (drawn s))
          in (Inr u, [Uuid4 u], s\<lparr>drawn := Suc (drawn s)\<rparr>))"

text \<open>\<^verbatim>\<open>d[k]\<close> and \<^verbatim>\<open>d.get(k, default)\<close> of a top-level dictionary as the object in the
  slot; a container default is a fresh object.\<close>

definition slot :: "tdict \<Rightarrow> string \<Rightarrow> sval M" where
  "slot d k = (case map_of d k of None \<Rightarrow> throw KeyError | Some v \<Rightarrow> ret v)"

definition slot_default :: "tdict \<Rightarrow> string \<Rightarrow> sval M \<Rightarrow> sval M" where
  "slot_default d k dflt = (case map_of d k of None \<Rightarrow> dflt | Some v \<Rightarrow> ret v)"

text \<open>\<^verbatim>\<open>x[k] = v\<close> and \<^verbatim>\<open>del x[k]\<close> through a slot: the stored object is changed in
  place; only a dict takes a string key.\<close>

definition set_item :: "sval \<Rightarrow> string \<Rightarrow> jval \<Rightarrow> unit M" where
  "set_item x k v =
     (case x of
        Imm a \<Rightarrow> throw TypeError
      | Ref r \<Rightarrow>
          (\<lambda>s. case heap s r of
                 JObj d \<Rightarrow> (Inr (), [], s\<lparr>heap := (heap s)(r := JObj (AList.update k v d))\<rparr>)
               | _ \<Rightarrow> (Inl TypeError, [], s)))"

definition del_item :: "sval \<Rightarrow> string \<Rightarrow> unit M" where
  "del_item x k =
     (case x of
        Imm a \<Rightarrow> throw TypeError
      | Ref r \<Rightarrow>
          (\<lambda>s. case heap s r of
                 JObj d \<Rightarrow>
                   (if k \<in> fst ` set d
                    then (Inr (), [], s\<lparr>heap := (heap s)(r := JObj (AList.delete k d))\<rparr>)
                    else (Inl KeyError, [], s))
               | _ \<Rightarrow> (Inl TypeError, [], s)))"

section \<open>\<^verbatim>\<open>should_filter_feedback\<close>\<close>

definition should_filter_feedback ::
  "tdict \<Rightarrow> int \<Rightarrow> FeedbackCreationSource \<Rightarrow> bool M" where
  "should_filter_feedback event project_id source =
     with_heap (\<lambda>h.
     bnd (if top_get h event ''contexts'' = JNone then ret True
          else
            bnd (lift (top_item h event ''contexts'')) (\<lambda>contexts.
            bnd (lift (py_get contexts ''feedback'')) (\<lambda>feedback.
            if feedback = JNone then ret True
            else
              bnd (lift (py_item contexts ''feedback'')) (\<lambda>feedback.
              bnd (lift (py_get feedback ''message'')) (\<lambda>message.
              ret (message = JNone)))))) (\<lambda>missing.
     if missing then
       bnd (emit (MetricsIncr ''feedback.create_feedback_issue.filtered''
                    [(''reason'', JStr ''missing_context'')])) (\<lambda>_.
       ret True)
     else
       bnd (lift (top_item h event ''contexts'')) (\<lambda>contexts.
       bnd (lift (py_item contexts ''feedback'')) (\<lambda>feedback.
       bnd (lift (py_item feedback ''message'')) (\<lambda>message.
       if message = JStr UNREAL_FEEDBACK_UNATTENDED_MESSAGE then
         bnd (emit (MetricsIncr ''feedback.create_feedback_issue.filtered''
                      [(''reason'', JStr ''unreal.unattended'')])) (\<lambda>_.
         ret True)
       else
         bnd (lift (py_strip message)) (\<lambda>stripped.
         if stripped = [] then
           bnd (emit (MetricsIncr ''feedback.create_feedback_issue.filtered''
                        [(''reason'', JStr ''empty'')])) (\<lambda>_.
           ret True)
         else ret False))))))"

section \<open>\<^verbatim>\<open>fix_for_issue_platform\<close>\<close>

text \<open>
  The function reads and changes its argument: the result is the argument dictionary as
  the call leaves it, together with the returned \<^verbatim>\<open>ret_event\<close>.  Slots are copied as
  they are, so a container of the argument and the one of \<^verbatim>\<open>ret_event\<close> are one object
  of the store.
\<close>

definition fix_for_issue_platform :: "env \<Rightarrow> tdict \<Rightarrow> (tdict \<times> tdict) M" where
  "fix_for_issue_platform E event_data =
     bnd (with_heap (\<lambda>h. lift (top_item h event_data ''timestamp''))) (\<lambda>ts.
     bnd (lift (fromtimestamp E ts)) (\<lambda>dt.
     let ret_event = AList.update ''timestamp'' (Imm (AText (isoformat E dt))) [] in
     bnd (slot event_data ''received'') (\<lambda>received.
     let ret_event = AList.update ''received'' received ret_event in
     bnd (slot event_data ''project_id'') (\<lambda>project_id.
     let ret_event = AList.update ''project_id'' project_id ret_event in
     bnd (slot_default event_data ''contexts'' (alloc (JObj []))) (\<lambda>ret_contexts.
     let ret_event = AList.update ''contexts'' ret_contexts ret_event in
     bnd (with_heap (\<lambda>h. lift (top_item h event_data ''contexts''))) (\<lambda>contexts.
     bnd (lift (py_get contexts ''replay'')) (\<lambda>replay.
     bnd (if \<not> truthy replay then
            bnd (lift (py_get_default contexts ''feedback'' (JObj []))) (\<lambda>fb.
            bnd (lift (py_get fb ''replay_id'')) (\<lambda>replay_id.
            ret (truthy replay_id)))
          else ret False) (\<lambda>bridge.
     bnd (if bridge then
            bnd (lift (py_get_default contexts ''feedback'' (JObj []))) (\<lambda>fb.
            bnd (lift (py_get fb ''replay_id'')) (\<lambda>replay_id.
            set_item ret_contexts ''replay'' (JObj [(''replay_id'', replay_id)])))
          else ret ()) (\<lambda>_.
     bnd (slot event_data ''event_id'') (\<lambda>event_id.
     let ret_event = AList.update ''event_id'' event_id ret_event in
     bnd (slot_default event_data ''tags'' (alloc (JArr []))) (\<lambda>tags.
     let ret_event = AList.update ''tags'' tags ret_event in
     bnd (slot_default event_data ''platform'' (ret (Imm (AText ''other'')))) (\<lambda>platform.
     let ret_event = AList.update ''platform'' platform ret_event in
     bnd (slot_default event_data ''level'' (ret (Imm (AText ''info'')))) (\<lambda>level.
     let ret_event = AList.update ''level'' level ret_event in
     bnd (slot_default event_data ''environment'' (ret (Imm (AText ''production''))))
       (\<lambda>environment.
     let ret_event = AList.update ''environment'' environment ret_event in
     bnd (with_heap (\<lambda>h.
            if truthy (top_get h event_data ''sdk'') then
              bnd (slot event_data ''sdk'') (\<lambda>sdk. ret (AList.update ''sdk'' sdk ret_event))
            else ret ret_event)) (\<lambda>ret_event.
     bnd (slot_default event_data ''request'' (alloc (JObj []))) (\<lambda>request.
     let ret_event = AList.update ''request'' request ret_event in
     bnd (slot_default event_data ''user'' (alloc (JObj []))) (\<lambda>ret_user.
     let ret_event = AList.update ''user'' ret_user ret_event in
     bnd (with_heap (\<lambda>h.
            if top_get h event_data ''dist'' \<noteq> JNone
            then ret (AList.delete ''dist'' event_data) else ret event_data)) (\<lambda>event_data.
     bnd (with_heap (\<lambda>h.
            bnd (lift (py_get (top_get_default h event_data ''user'' (JObj [])) ''name''))
              (\<lambda>name.
            if name \<noteq> JNone then
              bnd (slot event_data ''user'') (\<lambda>user. del_item user ''name'')
            else ret ()))) (\<lambda>_.
     bnd (with_heap (\<lambda>h.
            bnd (lift (py_get (top_get_default h event_data ''user'' (JObj [])) ''isStaff''))
              (\<lambda>is_staff.
            if is_staff \<noteq> JNone then
              bnd (slot event_data ''user'') (\<lambda>user. del_item user ''isStaff'')
            else ret ()))) (\<lambda>_.
     bnd (with_heap (\<lambda>h.
            bnd (lift (py_get (top_get_default h event_data ''user'' (JObj [])) ''id''))
              (\<lambda>uid.
            if uid \<noteq> JNone then
              bnd (slot event_data ''user'') (\<lambda>user.
              bnd (with_heap (\<lambda>h. lift (py_item (resolve h user) ''id''))) (\<lambda>uid.
              set_item user ''id'' (JAtom (AStr (py_str E uid)))))
            else ret ()))) (\<lambda>_.
     bnd (with_heap (\<lambda>h.
            lift (py_get_default (top_get_default h event_data ''contexts'' (JObj []))
                    ''feedback'' (JObj [])))) (\<lambda>feedback_obj.
     bnd (lift (py_get feedback_obj ''contact_email'')) (\<lambda>contact_email.
     bnd (with_heap (\<lambda>h.
            bnd (lift (py_get_default (resolve h ret_user) ''email'' (JStr []))) (\<lambda>email.
            if \<not> truthy email then set_item ret_user ''email'' contact_email
            else ret ()))) (\<lambda>_.
     bnd (lift (py_get feedback_obj ''message'')) (\<lambda>message.
     bnd (alloc (JObj [(''message'', message)])) (\<lambda>logentry.
     let ret_event = AList.update ''logentry'' logentry ret_event in
     ret (event_data, ret_event)))))))))))))))))))))))))))"

section \<open>Validation, publishing and spam triage\<close>

definition jsonschema_validate :: "env \<Rightarrow> tdict \<Rightarrow> schema \<Rightarrow> unit M" where
  "jsonschema_validate E event_data sch =
     bnd (emit (JsonschemaValidate sch)) (\<lambda>_.
     with_heap (\<lambda>h.
       if schema_valid E sch (snapshot h event_data) then ret () else throw ValidationError))"

definition validate_issue_platform_event_schema :: "env \<Rightarrow> tdict \<Rightarrow> unit M" where
  "validate_issue_platform_event_schema E event_data =
     catch (jsonschema_validate E event_data EVENT_PAYLOAD_SCHEMA) (\<lambda>e.
       if e = ValidationError then
         catch (jsonschema_validate E event_data LEGACY_EVENT_PAYLOAD_SCHEMA) (\<lambda>e'.
           if e' = ValidationError then
             bnd (emit (MetricsIncr ''feedback.create_feedback_issue.invalid_schema'' [])) (\<lambda>_.
             throw e')
           else throw e')
       else throw e)"

definition produce_occurrence_to_kafka :: "env \<Rightarrow> payload \<Rightarrow> unit M" where
  "produce_occurrence_to_kafka E p =
     bnd (emit (ProduceOccurrenceToKafka p)) (\<lambda>_.
     if produce_ok E p then ret () else throw PublishError)"

definition auto_ignore_spam_feedbacks :: "env \<Rightarrow> project \<Rightarrow> string list \<Rightarrow> unit M" where
  "auto_ignore_spam_feedbacks E project issue_fingerprint =
     (if features_has ''organizations:user-feedback-spam-filter-actions'' project then
        bnd (emit (MetricsIncr ''feedback.spam-detection-actions.set-ignored'' [])) (\<lambda>_.
        produce_occurrence_to_kafka E
          (STATUS_CHANGE \<lparr> sc_fingerprint = issue_fingerprint,
                           sc_project_id = project_pk project,
                           new_status = IGNORED,
                           new_substatus = FOREVER \<rparr>))
      else ret ())"

section \<open>\<^verbatim>\<open>create_feedback_issue\<close>\<close>

text \<open>
  \<^verbatim>\<open>a or uuid4().hex\<close> on the \<^verbatim>\<open>event_id\<close> slot: the object in the slot when it is
  truthy, else a fresh hexadecimal id.
\<close>

definition event_id_or_uuid4 :: "env \<Rightarrow> tdict \<Rightarrow> sval M" where
  "event_id_or_uuid4 E event =
     with_heap (\<lambda>h.
       case map_of event ''event_id'' of
         Some v \<Rightarrow> if truthy (resolve h v) then ret v
                   else bnd (uuid4_hex E) (\<lambda>u. ret (Imm (AText u)))
       | None \<Rightarrow> bnd (uuid4_hex E) (\<lambda>u. ret (Imm (AText u))))"

text \<open>
  The function returns nothing; the result here is the caller's \<^verbatim>\<open>event\<close> dictionary as
  the call leaves it (line 206 writes its \<^verbatim>\<open>event_id\<close>).
\<close>

definition create_feedback_issue ::
  "env \<Rightarrow> tdict \<Rightarrow> int \<Rightarrow> FeedbackCreationSource \<Rightarrow> tdict M" where
  "create_feedback_issue E event project_id source =
     bnd (emit (MetricsIncr ''feedback.create_feedback_issue.entered'' [])) (\<lambda>_.
     bnd (should_filter_feedback event project_id source) (\<lambda>filtered.
     if filtered then ret event
     else
     bnd (lift (case get_from_cache E project_id of
                  None \<Rightarrow> Inl DoesNotExist | Some p \<Rightarrow> Inr p)) (\<lambda>project.
     bnd (if features_has ''organizations:user-feedback-spam-filter-ingest'' project
             \<and> truthy (get_option project ''sentry:feedback_ai_spam_detection'')
          then
            catch
              (bnd (with_heap (\<lambda>h. lift (top_item h event ''contexts''))) (\<lambda>contexts.
               bnd (lift (py_item contexts ''feedback'')) (\<lambda>feedback.
               bnd (lift (py_item feedback ''message'')) (\<lambda>message.
               bnd (emit (IsSpam message)) (\<lambda>_.
               case is_spam E message of
                 None \<Rightarrow> throw RuntimeError
               | Some verdict \<Rightarrow> ret (Some verdict))))))
              (\<lambda>e.
               bnd (emit (LoggerException ''Error checking if message is spam'')) (\<lambda>_.
               ret None))
          else ret None) (\<lambda>is_message_spam.
     bnd (event_id_or_uuid4 E event) (\<lambda>event_id.
     let event = AList.update ''event_id'' event_id event in
     bnd (with_heap (\<lambda>h. lift (top_item h event ''timestamp''))) (\<lambda>ts.
     bnd (lift (fromtimestamp E ts)) (\<lambda>detection_time_v.
     bnd (with_heap (\<lambda>h. lift (top_item h event ''contexts''))) (\<lambda>contexts.
     bnd (lift (py_item contexts ''feedback'')) (\<lambda>feedback.
     bnd (lift (make_evidence feedback source is_message_spam))
       (\<lambda>(evidence_data_v, evidence_display_v).
     bnd (uuid4_hex E) (\<lambda>fp.
     let issue_fingerprint = [fp] in
     bnd (uuid4_hex E) (\<lambda>new_id.
     bnd (event_id_or_uuid4 E event) (\<lambda>occurrence_event_id.
     bnd (with_heap (\<lambda>h. lift (top_item h event ''contexts''))) (\<lambda>contexts.
     bnd (lift (py_item contexts ''feedback'')) (\<lambda>feedback.
     bnd (lift (py_item feedback ''message'')) (\<lambda>message.
     bnd (slot_default event ''level'' (ret (Imm (AText ''info'')))) (\<lambda>level.
     let occurrence =
           \<lparr> occ_id = new_id,
             occ_event_id = occurrence_event_id,
             occ_project_id = project_id,
             fingerprint = issue_fingerprint,
             issue_title = ''User Feedback'',
             subtitle = message,
             resource_id = None,
             evidence_data = evidence_data_v,
             evidence_display = evidence_display_v,
             occ_type = FeedbackGroup,
             detection_time = detection_time_v,
             culprit = ''user'',
             occ_level = level \<rparr> in
     bnd (slot_default event ''tags'' (alloc (JObj []))) (\<lambda>tags.
     let event_data =
           foldl (\<lambda>d (k, v). AList.update k v d)
             [(''project_id'', Imm (AInt project_id)),
              (''received'', Imm (AText (now_isoformat E))),
              (''tags'', tags)]
             event in
     bnd (fix_for_issue_platform E event_data) (\<lambda>(event_data, event_fixed).
     bnd (validate_issue_platform_event_schema E event_fixed) (\<lambda>_.
     bnd (if \<not> has_feedbacks project
          then emit (SendRobust first_feedback_received) else ret ()) (\<lambda>_.
     bnd (if source \<in> set [NEW_FEEDBACK_ENVELOPE, NEW_FEEDBACK_DJANGO_ENDPOINT]
             \<and> \<not> has_new_feedbacks project
          then emit (SendRobust first_new_feedback_received) else ret ()) (\<lambda>_.
     bnd (with_heap (\<lambda>h.
            produce_occurrence_to_kafka E
              (OCCURRENCE (resolve_occurrence h occurrence) (snapshot h event_fixed))))
       (\<lambda>_.
     bnd (if is_message_spam = Some True
          then auto_ignore_spam_feedbacks E project issue_fingerprint else ret ()) (\<lambda>_.
     bnd (with_heap (\<lambda>h. lift (top_item h event ''contexts''))) (\<lambda>contexts.
     bnd (lift (py_item contexts ''feedback'')) (\<lambda>feedback.
     bnd (lift (py_get feedback ''source'')) (\<lambda>client_source.
     bnd (emit (MetricsIncr ''feedback.create_feedback_issue.produced_occurrence''
                  [(''referrer'', JStr (source_value source)),
                   (''client_source'', client_source)])) (\<lambda>_.
     bnd (with_heap (\<lambda>h. lift (top_item h event ''event_id''))) (\<lambda>outcome_event_id.
     bnd (emit (TrackOutcome
                  \<lparr> out_org_id = organization_id project,
                    out_project_id = project_id,
                    out_key_id = None,
                    out_outcome = ACCEPTED,
                    out_reason = None,
                    out_timestamp = detection_time_v,
                    out_event_id = outcome_event_id,
                    out_category = USER_REPORT_V2,
                    out_quantity = 1 \<rparr>)) (\<lambda>_.
     ret event))))))))))))))))))))))))))))))"

section \<open>\<^verbatim>\<open>shim_to_feedback\<close>\<close>

text \<open>
  The correlated \<^verbatim>\<open>Event | GroupEvent\<close> with the attributes the shim reads; \<open>None\<close> is
  a missing (falsy) event.  The report is the \<^verbatim>\<open>UserReportShimDict\<close>.
\<close>

record Event =
  e_event_id :: ustring
  e_data :: jval
  e_datetime :: datetime
  e_platform :: jval
  e_environment_name :: ustring
  e_tags :: "(ustring \<times> ustring) list"

text \<open>A value put into a slot of a top-level dictionary: a container is an object of
  the store.\<close>

fun store_val :: "jval \<Rightarrow> sval M" where
  "store_val (JAtom a) = ret (Imm a)"
| "store_val v = alloc v"

text \<open>
  Lines 316--349: the \<^verbatim>\<open>feedback_event\<close> the shim synthesises, before it is handed to
  \<^verbatim>\<open>create_feedback_issue\<close>.  The \<^verbatim>\<open>contexts\<close> object is built as a value and stored
  once complete.
\<close>

definition shim_feedback_event :: "env \<Rightarrow> jval \<Rightarrow> Event option \<Rightarrow> tdict M" where
  "shim_feedback_event E report event =
     bnd (lift (py_get_default report ''name'' (JStr []))) (\<lambda>name.
     bnd (lift (py_item report ''email'')) (\<lambda>email.
     bnd (lift (py_item report ''comments'')) (\<lambda>comments.
     let feedback = [(''name'', name), (''contact_email'', email), (''message'', comments)] in
     case event of
       Some ev \<Rightarrow>
         let feedback = AList.update ''associated_event_id'' (JAtom (AStr (e_event_id ev))) feedback in
         bnd (if truthy (get_path E (e_data ev) [''contexts'', ''replay'', ''replay_id'']) then
                bnd (lift (py_item (e_data ev) ''contexts'')) (\<lambda>c.
                bnd (lift (py_item c ''replay'')) (\<lambda>replay.
                bnd (lift (py_item replay ''replay_id'')) (\<lambda>replay_id.
                ret ([(''replay'', replay)], AList.update ''replay_id'' replay_id feedback))))
              else ret ([], feedback)) (\<lambda>(replay_ctx, feedback).
         bnd (lift (py_item (e_data ev) ''level'')) (\<lambda>level.
         bnd (store_val level) (\<lambda>level.
         bnd (store_val (e_platform ev)) (\<lambda>platform.
         bnd (lift (py_item (e_data ev) ''level'')) (\<lambda>level2.
         bnd (store_val level2) (\<lambda>level2.
         bnd (alloc (JArr (map (\<lambda>(k, v). JArr [JAtom (AStr k), JAtom (AStr v)]) (e_tags ev)))) (\<lambda>tags.
         bnd (alloc (JObj ((''feedback'', JObj feedback) # replay_ctx))) (\<lambda>contexts.
         ret [(''contexts'', contexts),
              (''timestamp'', Imm (AFloat (datetime_timestamp E (e_datetime ev)))),
              (''level'', level2),
              (''platform'', platform),
              (''environment'', Imm (AStr (e_environment_name ev))),
              (''tags'', tags)]))))))))
     | None \<Rightarrow>
         bnd (emit (MetricsIncr ''feedback.user_report.missing_event'' [])) (\<lambda>_.
         bnd (lift (py_get_default report ''level'' (JStr ''info''))) (\<lambda>level.
         bnd (store_val level) (\<lambda>level.
         bnd (lift (py_get report ''event_id'')) (\<lambda>event_id.
         bnd (if truthy event_id then
                bnd (lift (py_item report ''event_id'')) (\<lambda>event_id.
                ret (AList.update ''associated_event_id'' event_id feedback))
              else ret feedback) (\<lambda>feedback.
         bnd (alloc (JObj [(''feedback'', JObj feedback)])) (\<lambda>contexts.
         ret [(''contexts'', contexts),
              (''timestamp'', Imm (AFloat (utcnow_timestamp E))),
              (''platform'', Imm (AText ''other'')),
              (''level'', level)])))))))))"

definition shim_to_feedback ::
  "env \<Rightarrow> jval \<Rightarrow> Event option \<Rightarrow> project \<Rightarrow> FeedbackCreationSource \<Rightarrow> unit M" where
  "shim_to_feedback E report event project source =
     catch
       (bnd (shim_feedback_event E report event) (\<lambda>feedback_event.
        bnd (create_feedback_issue E feedback_event (project_pk project) source) (\<lambda>_.
        ret ())))
       (\<lambda>e. emit (LoggerException
                    ''Error attempting to create new User Feedback from Shiming old User Report''))"

section \<open>Observing a run\<close>

definition result :: "'a M \<Rightarrow> state \<Rightarrow> error + 'a" where
  "result m s = fst (m s)"

definition effects :: "'a M \<Rightarrow> state \<Rightarrow> effect list" where
  "effects m s = fst (snd (m s))"

definition final :: "'a M \<Rightarrow> state \<Rightarrow> state" where
  "final m s = snd (snd (m s))"

text \<open>\<^verbatim>\<open>d.get(k)\<close> of a plain dict.\<close>

definition field_value :: "(string \<times> jval) list \<Rightarrow> string \<Rightarrow> jval" where
  "field_value d k = (case map_of d k of None \<Rightarrow> JNone | Some x \<Rightarrow> x)"

text \<open>
  The filter stage as the specification words it: the reason an event is rejected with,
  in the order the three rules are tried; \<open>None\<close> when no rule rejects.
\<close>

definition spec_rejection_reason :: "store \<Rightarrow> tdict \<Rightarrow> string option" where
  "spec_rejection_reason h event =
     (case top_get h event ''contexts'' of
        JAtom ANone \<Rightarrow> Some ''missing_context''
      | JObj c \<Rightarrow>
          (case field_value c ''feedback'' of
             JAtom ANone \<Rightarrow> Some ''missing_context''
           | JObj f \<Rightarrow>
               (case field_value f ''message'' of
                  JAtom ANone \<Rightarrow> Some ''missing_context''
                | JAtom (AStr m) \<Rightarrow>
                    if m = ustr UNREAL_FEEDBACK_UNATTENDED_MESSAGE then Some ''unreal.unattended''
                    else if strip m = [] then Some ''empty''
                    else None
                | _ \<Rightarrow> None)
           | _ \<Rightarrow> None)
      | _ \<Rightarrow> None)"

section \<open>A sample installation\<close>

text \<open>
  One project with both spam flags and the spam option on and no feedback seen yet, a store
  holding one feedback context, and collaborators that all succeed.  The classifier flags
  the message \<^verbatim>\<open>spam\<close> only.  The samples carry timestamps of whole seconds of the year
  2024, where the time conversions are exact.
\<close>

definition example_project :: project where
  "example_project =
     \<lparr> project_pk = 7, organization_id = 1,
       organization_features =
         [''organizations:user-feedback-spam-filter-ingest'',
          ''organizations:user-feedback-spam-filter-actions''],
       project_options = [(''sentry:feedback_ai_spam_detection'', JBool True)],
       has_feedbacks = False, has_new_feedbacks = False \<rparr>"

definition example_env :: env where
  "example_env =
     \<lparr> get_from_cache = (\<lambda>i. if i = 7 then Some example_project else None),
       is_spam = (\<lambda>m. Some (m = JStr ''spam'')),
       random_bits = (\<lambda>n. of_nat n),
       now_isoformat = ''2024-01-01T00:00:10+00:00'',
       utcnow_timestamp = 1704067210,
       fromtimestamp = (\<lambda>v. case v of JAtom (AInt i) \<Rightarrow> Inr (Datetime (of_int i))
                                     | JAtom (AFloat r) \<Rightarrow> Inr (Datetime r)
                                     | _ \<Rightarrow> Inl TypeError),
       datetime_timestamp = (\<lambda>d. case d of Datetime r \<Rightarrow> r),
       isoformat = (\<lambda>d. ''2024-01-01T00:00:00+00:00''),
       py_repr = (\<lambda>v. ustr ''?''),
       schema_valid = (\<lambda>sch d. True),
       produce_ok = (\<lambda>p. True),
       get_path = (\<lambda>v p. JNone) \<rparr>"

definition example_store :: "string \<Rightarrow> store" where
  "example_store msg = (\<lambda>a. JNone)(0 := JObj [(''feedback'', JObj [(''message'', JStr msg)])])"

definition example_state :: "string \<Rightarrow> state" where
  "example_state msg = \<lparr> heap = example_store msg, nxt = 1, drawn = 0 \<rparr>"

definition example_event :: tdict where
  "example_event = [(''contexts'', Ref 0), (''timestamp'', Imm (AInt 1704067200))]"

section \<open>Properties of runs\<close>

text \<open>Every effect of the computation, from whatever state it is run, satisfies \<open>P\<close>.\<close>

definition emits_only :: "(effect \<Rightarrow> bool) \<Rightarrow> 'a M \<Rightarrow> bool" where
  "emits_only P m = (\<forall>s. list_all P (effects m s))"

text \<open>
  The stage of the pipeline an effect belongs to, numbered in the order the stages are
  written in \<^verbatim>\<open>create_feedback_issue\<close>: entry (0), filter (1), classify (2), build (3),
  validate (4), first-seen signals (5), publish (6), spam triage (7), outcome (8).
\<close>

definition metric_stage :: "string \<Rightarrow> nat" where
  "metric_stage name =
     (if name = ''feedback.create_feedback_issue.entered'' then 0
      else if name = ''feedback.create_feedback_issue.filtered'' then 1
      else if name = ''feedback.create_feedback_issue.invalid_schema'' then 4
      else if name = ''feedback.spam-detection-actions.set-ignored'' then 7
      else if name = ''feedback.create_feedback_issue.produced_occurrence'' then 8
      else 0)"

fun stage :: "effect \<Rightarrow> nat" where
  "stage (MetricsIncr name tags) = metric_stage name"
| "stage (IsSpam m) = 2"
| "stage (LoggerException m) = 2"
| "stage (Uuid4 u) = 3"
| "stage (JsonschemaValidate sch) = 4"
| "stage (SendRobust sg) = 5"
| "stage (ProduceOccurrenceToKafka (OCCURRENCE occ ev)) = 6"
| "stage (ProduceOccurrenceToKafka (STATUS_CHANGE sc)) = 7"
| "stage (TrackOutcome r) = 8"

text \<open>The numbering with publishing before the first-seen signals.\<close>

fun claimed_stage :: "effect \<Rightarrow> nat" where
  "claimed_stage (SendRobust sg) = 6"
| "claimed_stage (ProduceOccurrenceToKafka (OCCURRENCE occ ev)) = 5"
| "claimed_stage e = stage e"

text \<open>The effects come stage after stage, none from a stage before \<open>k\<close>.\<close>

definition in_order_from :: "nat \<Rightarrow> 'a M \<Rightarrow> bool" where
  "in_order_from k m =
     (\<forall>s. sorted (map stage (effects m s)) \<and> list_all (\<lambda>e. k \<le> stage e) (effects m s))"

text \<open>What reaches the issue platform, the signal receivers or the accounting.\<close>

fun delivers :: "effect \<Rightarrow> bool" where
  "delivers (ProduceOccurrenceToKafka p) = True"
| "delivers (SendRobust sg) = True"
| "delivers (TrackOutcome r) = True"
| "delivers e = False"

definition invalid_schema_counter :: effect where
  "invalid_schema_counter = MetricsIncr ''feedback.create_feedback_issue.invalid_schema'' []"

text \<open>A run that counts an invalid schema raises the validation error and delivers
  nothing.\<close>

definition schema_fatal :: "'a M \<Rightarrow> bool" where
  "schema_fatal m =
     (\<forall>s. invalid_schema_counter \<in> set (effects m s) \<longrightarrow>
          result m s = Inl ValidationError \<and> list_all (\<lambda>e. \<not> delivers e) (effects m s))"

text \<open>The values a computation can return, and a property of all of them.\<close>

definition may_return :: "'a M \<Rightarrow> 'a \<Rightarrow> bool" where
  "may_return m x = (\<exists>s. result m s = Inr x)"

definition returns :: "('a \<Rightarrow> bool) \<Rightarrow> 'a M \<Rightarrow> bool" where
  "returns Q m = (\<forall>x. may_return m x \<longrightarrow> Q x)"

text \<open>
  An event as \<^verbatim>\<open>create_feedback_issue\<close> hands it to \<^verbatim>\<open>fix_for_issue_platform\<close>, with a
  given \<^verbatim>\<open>dist\<close>; its contexts are object 0 and its user object 1 of the store.  Then
  the event that call returns.
\<close>

definition feedback_event :: "atom \<Rightarrow> tdict" where
  "feedback_event dv =
     [(''timestamp'', Imm (AInt 1704067200)), (''received'', Imm (AText ''r'')),
      (''project_id'', Imm (AInt 7)), (''contexts'', Ref 0), (''event_id'', Imm (AText ''e'')),
      (''user'', Ref 1), (''dist'', Imm dv)]"

definition feedback_state :: "jval \<Rightarrow> state" where
  "feedback_state user =
     \<lparr> heap = (\<lambda>a. JNone)
         (0 := JObj [(''feedback'', JObj [(''message'', JStr ''hi''),
                                         (''contact_email'', JStr ''a@b.c'')])],
          1 := user),
       nxt = 2, drawn = 0 \<rparr>"

definition fixed_event :: tdict where
  "fixed_event =
     [(''timestamp'', Imm (AText ''2024-01-01T00:00:00+00:00'')),
      (''received'', Imm (AText ''r'')), (''project_id'', Imm (AInt 7)), (''contexts'', Ref 0),
      (''event_id'', Imm (AText ''e'')), (''tags'', Ref 2), (''platform'', Imm (AText ''other'')),
      (''level'', Imm (AText ''info'')), (''environment'', Imm (AText ''production'')),
      (''request'', Ref 3), (''user'', Ref 1), (''logentry'', Ref 4)]"

text \<open>
  Partial correctness of a computation: run from a state where \<open>P\<close> holds, a run that
  returns \<open>x\<close> ends in a state where \<open>Q x\<close> holds.  An invariant is kept by every run,
  also one that raises.
\<close>

definition hoare :: "(state \<Rightarrow> bool) \<Rightarrow> 'a M \<Rightarrow> ('a \<Rightarrow> state \<Rightarrow> bool) \<Rightarrow> bool" where
  "hoare P m Q = (\<forall>s x. P s \<longrightarrow> result m s = Inr x \<longrightarrow> Q x (final m s))"

definition preserves :: "(state \<Rightarrow> bool) \<Rightarrow> 'a M \<Rightarrow> bool" where
  "preserves J m = (\<forall>s. J s \<longrightarrow> J (final m s))"

text \<open>
  The store holds the dictionary \<open>user\<close> at the allocated address \<open>u\<close>; it holds at \<open>c\<close> a
  dictionary whose \<^verbatim>\<open>feedback\<close> entry is \<open>fb\<close>; every address below \<open>n\<close> is allocated.
\<close>

definition holds_user :: "addr \<Rightarrow> (string \<times> jval) list \<Rightarrow> state \<Rightarrow> bool" where
  "holds_user u user s = (u < nxt s \<and> heap s u = JObj user)"

definition holds_feedback :: "addr \<Rightarrow> jval option \<Rightarrow> state \<Rightarrow> bool" where
  "holds_feedback c fb s = (c < nxt s \<and> (\<exists>cd. heap s c = JObj cd \<and> map_of cd ''feedback'' = fb))"

definition allocated_from :: "addr \<Rightarrow> state \<Rightarrow> bool" where
  "allocated_from n s = (n \<le> nxt s)"

text \<open>
  \<^verbatim>\<open>contexts.get("feedback", {}).get("contact_email")\<close> of a contexts dictionary, and
  \<^verbatim>\<open>user.get("email", "")\<close> of a user dictionary.
\<close>

definition contact_email_of :: "(string \<times> jval) list \<Rightarrow> jval" where
  "contact_email_of contexts =
     (case (case map_of contexts ''feedback'' of None \<Rightarrow> JObj [] | Some v \<Rightarrow> v) of
        JObj f \<Rightarrow> field_value f ''contact_email''
      | _ \<Rightarrow> JNone)"

definition email_of :: "(string \<times> jval) list \<Rightarrow> jval" where
  "email_of user = (case map_of user ''email'' of None \<Rightarrow> JStr [] | Some v \<Rightarrow> v)"

text \<open>
  The four changes to the user dictionary, one after the other: \<^verbatim>\<open>name\<close> and
  \<^verbatim>\<open>isStaff\<close> are deleted unless None, \<^verbatim>\<open>id\<close> becomes its string unless None, and a user
  with no e-mail gets the contact e-mail.
\<close>

definition drop_unless_none :: "string \<Rightarrow> (string \<times> jval) list \<Rightarrow> (string \<times> jval) list" where
  "drop_unless_none k user = (if field_value user k \<noteq> JNone then AList.delete k user else user)"

definition id_to_str :: "env \<Rightarrow> (string \<times> jval) list \<Rightarrow> (string \<times> jval) list" where
  "id_to_str E user =
     (if field_value user ''id'' \<noteq> JNone
      then AList.update ''id'' (JAtom (AStr (py_str E (field_value user ''id'')))) user
      else user)"

definition backfill_email :: "jval \<Rightarrow> (string \<times> jval) list \<Rightarrow> (string \<times> jval) list" where
  "backfill_email contact_email user =
     (if truthy (email_of user) then user else AList.update ''email'' contact_email user)"

definition fixed_user :: "env \<Rightarrow> jval \<Rightarrow> (string \<times> jval) list \<Rightarrow> (string \<times> jval) list" where
  "fixed_user E contact_email user =
     backfill_email contact_email
       (id_to_str E (drop_unless_none ''isStaff'' (drop_unless_none ''name'' user)))"

text \<open>The counter of a user report that came without its event.\<close>

definition missing_event_counter :: effect where
  "missing_event_counter = MetricsIncr ''feedback.user_report.missing_event'' []"

text \<open>
  What a run shows of itself: whether it raised, and those of its effects that satisfy
  \<open>rel\<close>, in their order, after the effects \<open>pre\<close> seen before it.
\<close>

definition observes ::
  "effect list \<Rightarrow> (effect \<Rightarrow> bool) \<Rightarrow> (bool \<Rightarrow> effect list \<Rightarrow> bool) \<Rightarrow> 'a M \<Rightarrow> bool" where
  "observes pre rel \<Phi> m = (\<forall>s. \<Phi> (isl (result m s)) (pre @ filter rel (effects m s)))"



section \<open>Strings\<close>

lemma ustr_Nil [simp]: "ustr [] = []"
  by (simp add: ustr_def)

lemma ustr_eq_Nil [simp]: "ustr s = [] \<longleftrightarrow> s = []"
  by (simp add: ustr_def)

lemma ustr_eq [simp]: "ustr a = ustr b \<longleftrightarrow> a = b"
proof -
  have "inj (of_char :: char \<Rightarrow> nat)" by (rule injI) simp
  thus ?thesis by (simp add: ustr_def inj_map_eq_map)
qed

section \<open>The filter stage\<close>

lemmas monad_defs = ret_def throw_def bnd_def lift_def emit_def with_heap_def catch_def

lemma should_filter_rejects:
  assumes "spec_rejection_reason (heap s) event = Some r"
  shows "should_filter_feedback event project_id source s =
           (Inr True,
            [MetricsIncr ''feedback.create_feedback_issue.filtered'' [(''reason'', JStr r)]],
            s)"
  using assms
  by (auto simp: spec_rejection_reason_def should_filter_feedback_def monad_defs
        top_get_def top_get_default_def top_item_def py_get_def field_value_def
      split: jval.splits atom.splits option.splits if_splits)

text \<open>
  C1.  Whenever one of the three rules rejects the event (missing context, then the
  unattended sentinel, then a message that is empty once stripped),
  \<^verbatim>\<open>should_filter_feedback\<close> returns True and counts that reason, and
  \<^verbatim>\<open>create_feedback_issue\<close> returns at once: its only effects are the two counters, so no
  occurrence is built or published and no outcome is recorded, and the store is untouched.
\<close>

theorem filter_rejects_in_order:
  assumes "spec_rejection_reason (heap s) event = Some r"
  shows "should_filter_feedback event project_id source s =
           (Inr True,
            [MetricsIncr ''feedback.create_feedback_issue.filtered'' [(''reason'', JStr r)]],
            s)
         \<and> create_feedback_issue E event project_id source s =
           (Inr event,
            [MetricsIncr ''feedback.create_feedback_issue.entered'' [],
             MetricsIncr ''feedback.create_feedback_issue.filtered'' [(''reason'', JStr r)]],
            s)"
  using should_filter_rejects [OF assms]
  by (simp add: create_feedback_issue_def bnd_def emit_def ret_def)

theorem filter_rejects_in_order_witness:
  "spec_rejection_reason
       ((\<lambda>_. JNone)
          (0 := JObj [(''feedback'', JObj [(''message'', JAtom (AStr [0x20, 0xA0, 0x2003]))])]))
       [(''contexts'', Ref 0)] = Some ''empty''
   \<and> effects (create_feedback_issue example_env [(''contexts'', Ref 0)] 7
                NEW_FEEDBACK_ENVELOPE)
       \<lparr>heap = (\<lambda>_. JNone)
          (0 := JObj [(''feedback'', JObj [(''message'', JAtom (AStr [0x20, 0xA0, 0x2003]))])]),
        nxt = 1, drawn = 0\<rparr>
     = [MetricsIncr ''feedback.create_feedback_issue.entered'' [],
        MetricsIncr ''feedback.create_feedback_issue.filtered'' [(''reason'', JStr ''empty'')]]"
proof -
  let ?h = "(\<lambda>_. JNone)
          (0 := JObj [(''feedback'', JObj [(''message'', JAtom (AStr [0x20, 0xA0, 0x2003]))])])"
  have r: "spec_rejection_reason ?h [(''contexts'', Ref 0)] = Some ''empty''"
    by (simp add: spec_rejection_reason_def top_get_def top_get_default_def field_value_def
          UNREAL_FEEDBACK_UNATTENDED_MESSAGE_def strip_def is_space_def ustr_def)
  show ?thesis
    using r filter_rejects_in_order
            [of "\<lparr>heap = ?h, nxt = 1, drawn = 0\<rparr>" "[(''contexts'', Ref 0)]" "''empty''"
                7 NEW_FEEDBACK_ENVELOPE example_env]
    by (simp add: effects_def)
qed

section \<open>Evidence\<close>

text \<open>
  C2 (as the code has it).  For a feedback dict, \<^verbatim>\<open>make_evidence\<close> succeeds and
  \<^verbatim>\<open>evidence_display\<close> lists, in the fixed order associated_event_id, contact_email,
  message, name, source, is_spam, exactly: each of the four feedback fields whose value is
  truthy, the source always, and is_spam when the verdict is True.
\<close>

theorem make_evidence_fixed_order:
  "\<exists>data display.
     make_evidence (JObj d) source verdict = Inr (data, display)
     \<and> map ev_name display =
         filter (\<lambda>k. if k = ''source'' then True
                     else if k = ''is_spam'' then verdict = Some True
                     else truthy (field_value d k))
           [''associated_event_id'', ''contact_email'', ''message'', ''name'', ''source'',
            ''is_spam'']"
  by (simp add: make_evidence_def copy_field_def py_get_def field_value_def Let_def
           split: option.splits)

text \<open>
  A name that is present but empty and a verdict that is present but False are both left
  out of the evidence.
\<close>

theorem make_evidence_present_but_omitted:
  "make_evidence (JObj [(''message'', JStr ''hi''), (''name'', JStr [])])
       NEW_FEEDBACK_ENVELOPE (Some False)
     = Inr ([(''message'', JStr ''hi''), (''source'', JStr ''new_feedback_envelope'')],
            [\<lparr>ev_name = ''message'', ev_value = JStr ''hi'', important = True\<rparr>,
             \<lparr>ev_name = ''source'', ev_value = JStr ''new_feedback_envelope'',
              important = False\<rparr>])"
  by (simp add: make_evidence_def copy_field_def py_get_def)

section \<open>Sample runs\<close>

lemma strip_samples [simp]:
  "strip (ustr ''spam'') \<noteq> []" "strip (ustr ''hi'') \<noteq> []"
  by (simp_all add: strip_def is_space_def ustr_def)

lemma uuid_hex_length: "length (uuid_hex w) = 32"
  by (simp add: uuid_hex_def)

lemma uuid_hex_nonempty [simp]: "uuid_hex w \<noteq> []"
  using uuid_hex_length [of w] by auto

lemmas run_defs = ret_def throw_def bnd_def lift_def emit_def with_heap_def catch_def
  alloc_def uuid4_hex_def slot_def slot_default_def set_item_def del_item_def

lemmas model_defs = create_feedback_issue_def should_filter_feedback_def
  top_get_def top_get_default_def top_item_def py_get_def features_has_def get_option_def
  UNREAL_FEEDBACK_UNATTENDED_MESSAGE_def event_id_or_uuid4_def
  make_evidence_def copy_field_def fix_for_issue_platform_def
  validate_issue_platform_event_schema_def jsonschema_validate_def
  produce_occurrence_to_kafka_def auto_ignore_spam_feedbacks_def
  resolve_occurrence_def snapshot_def Let_def

lemmas example_defs =
  example_env_def example_project_def example_state_def example_store_def example_event_def

lemma example_run_spam:
  "\<exists>s'. create_feedback_issue example_env example_event 7 NEW_FEEDBACK_ENVELOPE
          (example_state ''spam'') =
     (Inr [(''contexts'', Ref 0), (''timestamp'', Imm (AInt 1704067200)),
           (''event_id'', Imm (AText (uuid_hex 0)))],
      [MetricsIncr ''feedback.create_feedback_issue.entered'' [],
       IsSpam (JStr ''spam''), Uuid4 (uuid_hex 0), Uuid4 (uuid_hex 1), Uuid4 (uuid_hex 2),
       JsonschemaValidate EVENT_PAYLOAD_SCHEMA,
       SendRobust first_feedback_received,
       SendRobust first_new_feedback_received,
       ProduceOccurrenceToKafka
        (OCCURRENCE
          \<lparr>occ_id = uuid_hex 2, occ_event_id = JStr (uuid_hex 0),
             occ_project_id = 7, fingerprint = [uuid_hex 1],
             issue_title = ''User Feedback'', subtitle = JStr ''spam'',
             resource_id = None,
             evidence_data =
               [(''message'', JStr ''spam''),
                (''source'', JStr ''new_feedback_envelope''),
                (''is_spam'', JBool True)],
             evidence_display =
               [\<lparr>ev_name = ''message'', ev_value = JStr ''spam'', important = True\<rparr>,
                \<lparr>ev_name = ''source'', ev_value = JStr ''new_feedback_envelope'',
                   important = False\<rparr>,
                \<lparr>ev_name = ''is_spam'', ev_value = JStr ''True'', important = False\<rparr>],
             occ_type = FeedbackGroup,
             detection_time = Datetime 1704067200, culprit = ''user'',
             occ_level = JStr ''info''\<rparr>
          [(''timestamp'', JStr ''2024-01-01T00:00:00+00:00''),
           (''received'', JStr ''2024-01-01T00:00:10+00:00''),
           (''project_id'', JInt 7),
           (''contexts'', JObj [(''feedback'', JObj [(''message'', JStr ''spam'')])]),
           (''event_id'', JStr (uuid_hex 0)), (''tags'', JObj []),
           (''platform'', JStr ''other''), (''level'', JStr ''info''),
           (''environment'', JStr ''production''), (''request'', JObj []),
           (''user'', JObj [(''email'', JNone)]),
           (''logentry'', JObj [(''message'', JStr ''spam'')])]),
       MetricsIncr ''feedback.spam-detection-actions.set-ignored'' [],
       ProduceOccurrenceToKafka
        (STATUS_CHANGE
          \<lparr>sc_fingerprint = [uuid_hex 1], sc_project_id = 7,
             new_status = IGNORED, new_substatus = FOREVER\<rparr>),
       MetricsIncr ''feedback.create_feedback_issue.produced_occurrence''
        [(''referrer'', JStr ''new_feedback_envelope''), (''client_source'', JNone)],
       TrackOutcome
        \<lparr>out_org_id = 1, out_project_id = 7, out_key_id = None,
           out_outcome = ACCEPTED, out_reason = None,
           out_timestamp = Datetime 1704067200,
           out_event_id = JStr (uuid_hex 0), out_category = USER_REPORT_V2,
           out_quantity = 1\<rparr>],
      s')"
  by (simp add: run_defs model_defs example_defs py_str_bool_def)

lemma example_run_invalid:
  "\<exists>s'. create_feedback_issue (example_env\<lparr>schema_valid := \<lambda>sch d. False\<rparr>) example_event 7
          NEW_FEEDBACK_ENVELOPE (example_state ''hi'') =
     (Inl ValidationError,
      [MetricsIncr ''feedback.create_feedback_issue.entered'' [],
       IsSpam (JStr ''hi''), Uuid4 (uuid_hex 0), Uuid4 (uuid_hex 1), Uuid4 (uuid_hex 2),
       JsonschemaValidate EVENT_PAYLOAD_SCHEMA,
       JsonschemaValidate LEGACY_EVENT_PAYLOAD_SCHEMA,
       MetricsIncr ''feedback.create_feedback_issue.invalid_schema'' []],
      s')"
  by (simp add: run_defs model_defs example_defs)

section \<open>Effects of the parts\<close>

lemma emits_only_ret: "emits_only P (ret x)"
  by (simp add: emits_only_def effects_def ret_def)

lemma emits_only_throw: "emits_only P (throw e)"
  by (simp add: emits_only_def effects_def throw_def)

lemma emits_only_lift: "emits_only P (lift r)"
  by (cases r) (simp_all add: lift_def emits_only_ret emits_only_throw)

lemma emits_only_emit: "P e \<Longrightarrow> emits_only P (emit e)"
  by (simp add: emits_only_def effects_def emit_def)

lemma emits_only_bnd:
  "emits_only P m \<Longrightarrow> (\<And>x. emits_only P (f x)) \<Longrightarrow> emits_only P (bnd m f)"
  by (auto simp: emits_only_def effects_def bnd_def split: prod.splits sum.splits)
     (metis fst_conv snd_conv)+

lemma emits_only_catch:
  "emits_only P m \<Longrightarrow> (\<And>e. emits_only P (h e)) \<Longrightarrow> emits_only P (catch m h)"
  by (auto simp: emits_only_def effects_def catch_def split: prod.splits sum.splits)
     (metis fst_conv snd_conv)+

lemma emits_only_with_heap: "(\<And>h. emits_only P (f h)) \<Longrightarrow> emits_only P (with_heap f)"
  by (simp add: emits_only_def effects_def with_heap_def)

lemma emits_only_alloc: "emits_only P (alloc v)"
  by (simp add: emits_only_def effects_def alloc_def)

lemma emits_only_slot: "emits_only P (slot d k)"
  by (simp add: slot_def emits_only_ret emits_only_throw split: option.splits)

lemma emits_only_slot_default: "emits_only P dflt \<Longrightarrow> emits_only P (slot_default d k dflt)"
  by (simp add: slot_default_def emits_only_ret split: option.splits)

lemma emits_only_set_item: "emits_only P (set_item x k v)"
  by (auto simp: set_item_def emits_only_def effects_def throw_def split: sval.splits jval.splits)

lemma emits_only_del_item: "emits_only P (del_item x k)"
  by (auto simp: del_item_def emits_only_def effects_def throw_def split: sval.splits jval.splits)

lemma emits_only_uuid4: "(\<And>u. P (Uuid4 u)) \<Longrightarrow> emits_only P (uuid4_hex E)"
  by (simp add: emits_only_def effects_def uuid4_hex_def Let_def)

lemma emits_only_if:
  "(c \<Longrightarrow> emits_only P a) \<Longrightarrow> (\<not> c \<Longrightarrow> emits_only P b) \<Longrightarrow> emits_only P (if c then a else b)"
  by simp

lemma emits_only_case_prod:
  "(\<And>a b. emits_only P (f a b)) \<Longrightarrow> emits_only P (case p of (a, b) \<Rightarrow> f a b)"
  by (cases p) simp

lemma emits_only_case_option:
  "emits_only P a \<Longrightarrow> (\<And>v. emits_only P (f v)) \<Longrightarrow> emits_only P (case x of None \<Rightarrow> a | Some v \<Rightarrow> f v)"
  by (cases x) simp_all

lemmas emits_only_intros =
  emits_only_ret emits_only_throw emits_only_lift emits_only_bnd emits_only_catch
  emits_only_with_heap emits_only_alloc emits_only_slot emits_only_slot_default
  emits_only_set_item emits_only_del_item emits_only_if emits_only_case_prod
  emits_only_case_option

lemma fix_silent: "emits_only P (fix_for_issue_platform E d)"
  unfolding fix_for_issue_platform_def Let_def
  by (intro emits_only_intros)

lemma emits_only_mono:
  "emits_only P m \<Longrightarrow> (\<And>e. P e \<Longrightarrow> Q e) \<Longrightarrow> emits_only Q m"
  by (auto simp: emits_only_def list_all_iff)

lemma emits_only_should_filter:
  "(\<And>r. P (MetricsIncr ''feedback.create_feedback_issue.filtered'' [(''reason'', JStr r)]))
   \<Longrightarrow> emits_only P (should_filter_feedback event project_id source)"
  unfolding should_filter_feedback_def
  by (intro emits_only_intros emits_only_emit) simp_all

lemma emits_only_event_id:
  "(\<And>u. P (Uuid4 u)) \<Longrightarrow> emits_only P (event_id_or_uuid4 E event)"
  unfolding event_id_or_uuid4_def
  by (intro emits_only_intros emits_only_uuid4) simp_all

lemma emits_only_jsonschema:
  "P (JsonschemaValidate sch) \<Longrightarrow> emits_only P (jsonschema_validate E d sch)"
  unfolding jsonschema_validate_def
  by (intro emits_only_intros emits_only_emit) simp_all

lemma emits_only_validate:
  "(\<And>sch. P (JsonschemaValidate sch)) \<Longrightarrow> P invalid_schema_counter
   \<Longrightarrow> emits_only P (validate_issue_platform_event_schema E d)"
  unfolding validate_issue_platform_event_schema_def invalid_schema_counter_def
  by (intro emits_only_intros emits_only_emit emits_only_jsonschema) simp_all

lemma emits_only_produce:
  "P (ProduceOccurrenceToKafka p) \<Longrightarrow> emits_only P (produce_occurrence_to_kafka E p)"
  unfolding produce_occurrence_to_kafka_def
  by (intro emits_only_intros emits_only_emit) simp_all

lemma emits_only_auto_ignore:
  "P (MetricsIncr ''feedback.spam-detection-actions.set-ignored'' [])
   \<Longrightarrow> (\<And>sc. P (ProduceOccurrenceToKafka (STATUS_CHANGE sc)))
   \<Longrightarrow> emits_only P (auto_ignore_spam_feedbacks E project fp)"
  unfolding auto_ignore_spam_feedbacks_def
  by (intro emits_only_intros emits_only_emit emits_only_produce) simp_all

lemmas emits_only_parts =
  emits_only_emit emits_only_uuid4 emits_only_should_filter emits_only_event_id
  emits_only_validate emits_only_produce emits_only_auto_ignore fix_silent

section \<open>Schema validation\<close>

lemma validate_run:
  "validate_issue_platform_event_schema E d s =
     (if schema_valid E EVENT_PAYLOAD_SCHEMA (snapshot (heap s) d)
      then (Inr (), [JsonschemaValidate EVENT_PAYLOAD_SCHEMA], s)
      else if schema_valid E LEGACY_EVENT_PAYLOAD_SCHEMA (snapshot (heap s) d)
      then (Inr (), [JsonschemaValidate EVENT_PAYLOAD_SCHEMA,
                     JsonschemaValidate LEGACY_EVENT_PAYLOAD_SCHEMA], s)
      else (Inl ValidationError,
            [JsonschemaValidate EVENT_PAYLOAD_SCHEMA,
             JsonschemaValidate LEGACY_EVENT_PAYLOAD_SCHEMA,
             invalid_schema_counter], s))"
  by (simp add: validate_issue_platform_event_schema_def jsonschema_validate_def
        invalid_schema_counter_def monad_defs)

lemma schema_fatal_ret: "schema_fatal (ret x)"
  by (simp add: schema_fatal_def effects_def ret_def)

lemma schema_fatal_bnd:
  assumes "emits_only (\<lambda>e. \<not> delivers e \<and> e \<noteq> invalid_schema_counter) m"
    and "\<And>x. schema_fatal (f x)"
  shows "schema_fatal (bnd m f)"
  unfolding schema_fatal_def
proof (intro allI impI)
  fix s
  assume c: "invalid_schema_counter \<in> set (effects (bnd m f) s)"
  obtain r es s' where m: "m s = (r, es, s')" by (cases "m s") auto
  from assms(1) have "list_all (\<lambda>e. \<not> delivers e \<and> e \<noteq> invalid_schema_counter) (effects m s)"
    by (simp add: emits_only_def)
  with m have es: "list_all (\<lambda>e. \<not> delivers e \<and> e \<noteq> invalid_schema_counter) es"
    by (simp add: effects_def)
  show "result (bnd m f) s = Inl ValidationError
        \<and> list_all (\<lambda>e. \<not> delivers e) (effects (bnd m f) s)"
  proof (cases r)
    case (Inl e)
    with c m es show ?thesis by (auto simp: effects_def bnd_def list_all_iff)
  next
    case (Inr x)
    obtain r' es' s'' where f: "f x s' = (r', es', s'')" by (cases "f x s'") auto
    from c m Inr f es have "invalid_schema_counter \<in> set (effects (f x) s')"
      by (auto simp: effects_def bnd_def list_all_iff)
    with assms(2) [of x] have "result (f x) s' = Inl ValidationError
        \<and> list_all (\<lambda>e. \<not> delivers e) (effects (f x) s')"
      by (simp add: schema_fatal_def)
    with m Inr f es show ?thesis
      by (auto simp: effects_def result_def bnd_def list_all_iff)
  qed
qed

lemma schema_fatal_validate:
  assumes "\<And>x. emits_only (\<lambda>e. e \<noteq> invalid_schema_counter) (f x)"
  shows "schema_fatal (bnd (validate_issue_platform_event_schema E d) f)"
  unfolding schema_fatal_def
proof (intro allI impI)
  fix s
  assume c: "invalid_schema_counter
               \<in> set (effects (bnd (validate_issue_platform_event_schema E d) f) s)"
  obtain r' es' s'' where f: "f () s = (r', es', s'')" by (cases "f () s") auto
  from assms [of "()"] have "list_all (\<lambda>e. e \<noteq> invalid_schema_counter) (effects (f ()) s)"
    by (simp add: emits_only_def)
  with f have es': "invalid_schema_counter \<notin> set es'"
    by (auto simp: effects_def list_all_iff)
  from c f es' show "result (bnd (validate_issue_platform_event_schema E d) f) s
          = Inl ValidationError
        \<and> list_all (\<lambda>e. \<not> delivers e)
            (effects (bnd (validate_issue_platform_event_schema E d) f) s)"
    by (auto simp: effects_def result_def bnd_def validate_run invalid_schema_counter_def
          split: if_splits)
qed

lemma schema_fatal_if:
  "(c \<Longrightarrow> schema_fatal a) \<Longrightarrow> (\<not> c \<Longrightarrow> schema_fatal b) \<Longrightarrow> schema_fatal (if c then a else b)"
  by simp

lemma schema_fatal_case_prod:
  "(\<And>a b. schema_fatal (f a b)) \<Longrightarrow> schema_fatal (case p of (a, b) \<Rightarrow> f a b)"
  by (cases p) simp

lemma create_feedback_issue_schema_fatal:
  "schema_fatal (create_feedback_issue E event project_id source)"
  unfolding create_feedback_issue_def Let_def
  by (intro schema_fatal_validate schema_fatal_bnd schema_fatal_if schema_fatal_case_prod
        schema_fatal_ret emits_only_parts emits_only_intros)
     (simp_all add: invalid_schema_counter_def)

text \<open>
  C5.  \<^verbatim>\<open>validate_issue_platform_event_schema\<close> validates against the current schema, against
  the legacy schema only when that fails, and counts and raises only when both fail.  A run
  of \<^verbatim>\<open>create_feedback_issue\<close> that counts an invalid schema ends with the validation error
  and has published no occurrence, sent no signal and recorded no outcome.
\<close>

theorem schema_failure_is_fatal:
  "validate_issue_platform_event_schema E d s =
     (if schema_valid E EVENT_PAYLOAD_SCHEMA (snapshot (heap s) d)
      then (Inr (), [JsonschemaValidate EVENT_PAYLOAD_SCHEMA], s)
      else if schema_valid E LEGACY_EVENT_PAYLOAD_SCHEMA (snapshot (heap s) d)
      then (Inr (), [JsonschemaValidate EVENT_PAYLOAD_SCHEMA,
                     JsonschemaValidate LEGACY_EVENT_PAYLOAD_SCHEMA], s)
      else (Inl ValidationError,
            [JsonschemaValidate EVENT_PAYLOAD_SCHEMA,
             JsonschemaValidate LEGACY_EVENT_PAYLOAD_SCHEMA,
             invalid_schema_counter], s))
   \<and> (invalid_schema_counter
         \<in> set (effects (create_feedback_issue E event project_id source) s0) \<longrightarrow>
        result (create_feedback_issue E event project_id source) s0 = Inl ValidationError
        \<and> list_all (\<lambda>e. \<not> delivers e)
              (effects (create_feedback_issue E event project_id source) s0))"
proof -
  have "schema_fatal (create_feedback_issue E event project_id source)"
    by (rule create_feedback_issue_schema_fatal)
  thus ?thesis
    unfolding schema_fatal_def by (simp only: validate_run) simp
qed

theorem schema_failure_is_fatal_witness:
  "invalid_schema_counter
     \<in> set (effects (create_feedback_issue (example_env\<lparr>schema_valid := \<lambda>sch d. False\<rparr>)
                       example_event 7 NEW_FEEDBACK_ENVELOPE) (example_state ''hi''))
   \<and> result (create_feedback_issue (example_env\<lparr>schema_valid := \<lambda>sch d. False\<rparr>)
               example_event 7 NEW_FEEDBACK_ENVELOPE) (example_state ''hi'')
       = Inl ValidationError
   \<and> list_all (\<lambda>e. \<not> delivers e)
         (effects (create_feedback_issue (example_env\<lparr>schema_valid := \<lambda>sch d. False\<rparr>)
                     example_event 7 NEW_FEEDBACK_ENVELOPE) (example_state ''hi''))"
proof -
  have "invalid_schema_counter
     \<in> set (effects (create_feedback_issue (example_env\<lparr>schema_valid := \<lambda>sch d. False\<rparr>)
                       example_event 7 NEW_FEEDBACK_ENVELOPE) (example_state ''hi''))"
    using example_run_invalid by (auto simp: effects_def invalid_schema_counter_def)
  thus ?thesis
    using schema_failure_is_fatal
            [of "example_env\<lparr>schema_valid := \<lambda>sch d. False\<rparr>" example_event
                "example_state ''hi''" example_event 7 NEW_FEEDBACK_ENVELOPE
                "example_state ''hi''"]
    by blast
qed

section \<open>Order of the stages\<close>

lemma in_order_from_silent: "emits_only (\<lambda>e. False) m \<Longrightarrow> in_order_from k m"
  by (auto simp: in_order_from_def emits_only_def list_all_iff dest!: spec)

lemma in_order_from_ret: "in_order_from k (ret x)"
  by (simp add: in_order_from_def effects_def ret_def)

lemma in_order_from_bnd:
  assumes m: "emits_only (\<lambda>e. stage e = j) m"
    and k: "k \<le> j"
    and f: "\<And>x. in_order_from j (f x)"
  shows "in_order_from k (bnd m f)"
  unfolding in_order_from_def
proof (intro allI)
  fix s
  obtain r es s' where ms: "m s = (r, es, s')" by (cases "m s") auto
  from m have "list_all (\<lambda>e. stage e = j) (effects m s)" by (simp add: emits_only_def)
  with ms have es: "\<forall>e\<in>set es. stage e = j" by (simp add: effects_def list_all_iff)
  hence sorted_es: "sorted (map stage es)"
    by (induction es) auto
  show "sorted (map stage (effects (bnd m f) s))
        \<and> list_all (\<lambda>e. k \<le> stage e) (effects (bnd m f) s)"
  proof (cases r)
    case (Inl e)
    with ms es k sorted_es show ?thesis by (auto simp: effects_def bnd_def list_all_iff)
  next
    case (Inr x)
    obtain r' es' s'' where fs: "f x s' = (r', es', s'')" by (cases "f x s'") auto
    from f [of x] have "sorted (map stage (effects (f x) s'))
        \<and> list_all (\<lambda>e. j \<le> stage e) (effects (f x) s')"
      by (simp add: in_order_from_def)
    with fs have es': "sorted (map stage es')" "\<forall>e\<in>set es'. j \<le> stage e"
      by (simp_all add: effects_def list_all_iff)
    with ms Inr fs es k sorted_es show ?thesis
      by (auto simp: effects_def bnd_def list_all_iff sorted_append)
  qed
qed

lemma in_order_from_bnd_silent:
  assumes m: "emits_only (\<lambda>e. False) m" and f: "\<And>x. in_order_from k (f x)"
  shows "in_order_from k (bnd m f)"
  by (rule in_order_from_bnd [where j = k])
     (auto intro: emits_only_mono [OF m] f)

lemma in_order_from_if:
  "(c \<Longrightarrow> in_order_from k a) \<Longrightarrow> (\<not> c \<Longrightarrow> in_order_from k b)
   \<Longrightarrow> in_order_from k (if c then a else b)"
  by simp

lemma in_order_from_case_prod:
  "(\<And>a b. in_order_from k (f a b)) \<Longrightarrow> in_order_from k (case p of (a, b) \<Rightarrow> f a b)"
  by (cases p) simp

text \<open>The steps of \<^verbatim>\<open>create_feedback_issue\<close> that have effects, each in its stage.\<close>

lemma in_order_from_emit:
  "k \<le> stage e \<Longrightarrow> (\<And>x. in_order_from (stage e) (f x)) \<Longrightarrow> in_order_from k (bnd (emit e) f)"
  by (rule in_order_from_bnd [where j = "stage e"]) (simp_all add: emits_only_emit)

lemma in_order_from_filter:
  "k \<le> 1 \<Longrightarrow> (\<And>x. in_order_from 1 (f x))
   \<Longrightarrow> in_order_from k (bnd (should_filter_feedback event project_id source) f)"
  by (rule in_order_from_bnd [where j = 1])
     (simp_all add: emits_only_should_filter metric_stage_def)

lemma in_order_from_event_id:
  "k \<le> 3 \<Longrightarrow> (\<And>x. in_order_from 3 (f x))
   \<Longrightarrow> in_order_from k (bnd (event_id_or_uuid4 E event) f)"
  by (rule in_order_from_bnd [where j = 3]) (simp_all add: emits_only_event_id)

lemma in_order_from_uuid4:
  "k \<le> 3 \<Longrightarrow> (\<And>x. in_order_from 3 (f x)) \<Longrightarrow> in_order_from k (bnd (uuid4_hex E) f)"
  by (rule in_order_from_bnd [where j = 3]) (simp_all add: emits_only_uuid4)

lemma in_order_from_validate:
  "k \<le> 4 \<Longrightarrow> (\<And>x. in_order_from 4 (f x))
   \<Longrightarrow> in_order_from k (bnd (validate_issue_platform_event_schema E d) f)"
  by (rule in_order_from_bnd [where j = 4])
     (simp_all add: emits_only_validate invalid_schema_counter_def metric_stage_def)

lemma in_order_from_signal:
  "k \<le> 5 \<Longrightarrow> (\<And>x. in_order_from 5 (f x))
   \<Longrightarrow> in_order_from k (bnd (if c then emit (SendRobust sg) else ret ()) f)"
  by (rule in_order_from_bnd [where j = 5])
     (simp_all add: emits_only_emit emits_only_ret)

lemma in_order_from_publish:
  "k \<le> 6 \<Longrightarrow> (\<And>x. in_order_from 6 (f x))
   \<Longrightarrow> in_order_from k
         (bnd (with_heap (\<lambda>h. produce_occurrence_to_kafka E (OCCURRENCE (occ h) (ev h)))) f)"
  by (rule in_order_from_bnd [where j = 6])
     (simp_all add: emits_only_with_heap emits_only_produce)

lemma in_order_from_triage:
  "k \<le> 7 \<Longrightarrow> (\<And>x. in_order_from 7 (f x))
   \<Longrightarrow> in_order_from k
         (bnd (if c then auto_ignore_spam_feedbacks E project fp else ret ()) f)"
  by (rule in_order_from_bnd [where j = 7])
     (simp_all add: emits_only_auto_ignore emits_only_ret metric_stage_def)

lemmas in_order_from_steps =
  in_order_from_emit in_order_from_filter in_order_from_event_id in_order_from_uuid4
  in_order_from_validate in_order_from_signal in_order_from_publish in_order_from_triage

lemma classify_stage:
  "emits_only (\<lambda>e. stage e = 2)
     (if c then
        catch
          (bnd (with_heap (\<lambda>h. lift (top_item h event ''contexts''))) (\<lambda>contexts.
           bnd (lift (py_item contexts ''feedback'')) (\<lambda>feedback.
           bnd (lift (py_item feedback ''message'')) (\<lambda>message.
           bnd (emit (IsSpam message)) (\<lambda>_.
           case is_spam E message of
             None \<Rightarrow> throw RuntimeError
           | Some verdict \<Rightarrow> ret (Some verdict))))))
          (\<lambda>e.
           bnd (emit (LoggerException ''Error checking if message is spam'')) (\<lambda>_.
           ret None))
      else ret None)"
  by (intro emits_only_intros emits_only_emit) simp_all

lemma create_feedback_issue_in_order:
  "in_order_from 0 (create_feedback_issue E event project_id source)"
  unfolding create_feedback_issue_def Let_def
  apply (intro in_order_from_steps in_order_from_if in_order_from_case_prod in_order_from_ret
        in_order_from_bnd [OF classify_stage]
        in_order_from_bnd_silent emits_only_intros fix_silent)
  apply (simp_all add: metric_stage_def)
  done

text \<open>
  C4 (as the code has it).  The effects of one call come stage after stage in the order
  filter, classify, build, validate, first-seen signals, publish, spam triage, outcome: the
  signals are sent before the occurrence is published.
\<close>

theorem stages_in_order:
  "sorted (map stage (effects (create_feedback_issue E event project_id source) s))"
  using create_feedback_issue_in_order [of E event project_id source]
  by (simp add: in_order_from_def)

text \<open>
  With publishing numbered before the signals, the accepted sample submission is out of
  order: both signals precede the occurrence.
\<close>

theorem signals_precede_publish:
  "map claimed_stage
     (effects (create_feedback_issue example_env example_event 7 NEW_FEEDBACK_ENVELOPE)
        (example_state ''spam''))
     = [0, 2, 3, 3, 3, 4, 6, 6, 5, 7, 7, 8, 8]
   \<and> \<not> sorted (map claimed_stage
         (effects (create_feedback_issue example_env example_event 7 NEW_FEEDBACK_ENVELOPE)
            (example_state ''spam'')))"
  using example_run_spam by (auto simp: effects_def metric_stage_def)

section \<open>Returned values\<close>

lemma may_return_bnd:
  assumes "may_return (bnd m f) y"
  shows "\<exists>x. may_return m x \<and> may_return (f x) y"
proof -
  from assms obtain s where s: "fst (bnd m f s) = Inr y"
    by (auto simp: may_return_def result_def)
  obtain r es s' where m: "m s = (r, es, s')" by (cases "m s") auto
  show ?thesis
  proof (cases r)
    case (Inl e)
    with s m show ?thesis by (simp add: bnd_def)
  next
    case (Inr x)
    obtain r' es' s'' where f: "f x s' = (r', es', s'')" by (cases "f x s'") auto
    with s m Inr have "r' = Inr y" by (simp add: bnd_def)
    with m Inr f have "fst (m s) = Inr x" "fst (f x s') = Inr y" by simp_all
    thus ?thesis unfolding may_return_def result_def by blast
  qed
qed

lemma returns_bnd:
  "(\<And>x. may_return m x \<Longrightarrow> returns Q (f x)) \<Longrightarrow> returns Q (bnd m f)"
  unfolding returns_def by (blast dest: may_return_bnd)

lemma returns_ret: "Q x \<Longrightarrow> returns Q (ret x)"
  by (simp add: returns_def may_return_def result_def ret_def)

lemma returns_case_prod:
  "(\<And>a b. p = (a, b) \<Longrightarrow> returns Q (f a b)) \<Longrightarrow> returns Q (case p of (a, b) \<Rightarrow> f a b)"
  by (cases p) simp

lemma may_return_ret [simp]: "may_return (ret a) x \<longleftrightarrow> x = a"
  by (auto simp: may_return_def result_def ret_def)

lemma may_return_throw [simp]: "\<not> may_return (throw e) x"
  by (simp add: may_return_def result_def throw_def)

lemma may_return_lift [simp]: "may_return (lift r) x \<longleftrightarrow> r = Inr x"
  by (cases r) (auto simp: lift_def)

lemma may_return_alloc: "may_return (alloc v) x \<Longrightarrow> \<exists>r. x = Ref r"
  by (auto simp: may_return_def result_def alloc_def)

lemma may_return_with_heap: "may_return (with_heap f) x \<Longrightarrow> \<exists>h. may_return (f h) x"
  by (auto simp: may_return_def result_def with_heap_def)

lemma may_return_slot [simp]: "may_return (slot d k) x \<longleftrightarrow> map_of d k = Some x"
  by (auto simp: slot_def split: option.splits)

lemma may_return_slot_default:
  "may_return (slot_default d k dflt) x \<longleftrightarrow>
     (case map_of d k of None \<Rightarrow> may_return dflt x | Some v \<Rightarrow> x = v)"
  by (auto simp: slot_default_def split: option.splits)

section \<open>\<^verbatim>\<open>fix_for_issue_platform\<close> and its argument\<close>

lemma returns_bnd_drop: "(\<And>x. returns Q (f x)) \<Longrightarrow> returns Q (bnd m f)"
  by (rule returns_bnd)

lemma returns_conj: "returns P m \<Longrightarrow> returns Q m \<Longrightarrow> returns (\<lambda>x. P x \<and> Q x) m"
  by (simp add: returns_def)

lemma returns_bnd_slot_default:
  "(\<And>x. (case map_of d k of None \<Rightarrow> \<exists>r. x = Ref r | Some v \<Rightarrow> x = v) \<Longrightarrow> returns Q (f x))
   \<Longrightarrow> returns Q (bnd (slot_default d k (alloc v0)) f)"
  by (rule returns_bnd)
     (auto simp: may_return_slot_default dest: may_return_alloc split: option.splits)

lemma returns_bnd_sdk:
  assumes k: "\<And>x. x = r \<or> (\<exists>sdk. x = AList.update ''sdk'' sdk r) \<Longrightarrow> returns Q (f x)"
  shows "returns Q
           (bnd (with_heap (\<lambda>h. if c h
                   then bnd (slot d ''sdk'') (\<lambda>sdk. ret (AList.update ''sdk'' sdk r))
                   else ret r)) f)"
proof (rule returns_bnd)
  fix x
  assume "may_return (with_heap (\<lambda>h. if c h
                   then bnd (slot d ''sdk'') (\<lambda>sdk. ret (AList.update ''sdk'' sdk r))
                   else ret r)) x"
  hence "x = r \<or> (\<exists>sdk. x = AList.update ''sdk'' sdk r)"
    by (auto dest!: may_return_with_heap may_return_bnd split: if_splits)
  thus "returns Q (f x)" by (rule k)
qed

lemma returns_bnd_choice:
  assumes k: "\<And>x h. x = (if c h then a else b) \<Longrightarrow> returns Q (f x)"
  shows "returns Q (bnd (with_heap (\<lambda>h. if c h then ret a else ret b)) f)"
proof (rule returns_bnd)
  fix x
  assume "may_return (with_heap (\<lambda>h. if c h then ret a else ret b)) x"
  then obtain h where "may_return (if c h then ret a else ret b) x"
    by (blast dest: may_return_with_heap)
  hence "x = (if c h then a else b)"
    by (simp split: if_splits)
  thus "returns Q (f x)" by (rule k)
qed

lemma fix_returns_dist:
  "returns (\<lambda>(d', ret_event).
      (d' = d \<or> d' = AList.delete ''dist'' d)
      \<and> (map_of d ''dist'' = Some (Imm ANone) \<longrightarrow> d' = d)
      \<and> (\<forall>a. map_of d ''dist'' = Some (Imm a) \<longrightarrow> a \<noteq> ANone
             \<longrightarrow> d' = AList.delete ''dist'' d))
     (fix_for_issue_platform E d)"
  unfolding fix_for_issue_platform_def Let_def
  by (intro returns_bnd_choice returns_bnd_drop returns_ret)
     (auto simp: top_get_def top_get_default_def)

lemma fix_returns_user:
  "returns (\<lambda>(d', ret_event).
      (\<forall>v. map_of d ''user'' = Some v \<longrightarrow> map_of ret_event ''user'' = Some v)
      \<and> (map_of d ''user'' = None \<longrightarrow> (\<exists>r. map_of ret_event ''user'' = Some (Ref r))))
     (fix_for_issue_platform E d)"
  unfolding fix_for_issue_platform_def Let_def
  by (intro returns_bnd_slot_default [where k = "''user''"] returns_bnd_drop returns_ret)
     (auto simp: update_conv')

lemma fix_returns_contexts:
  "returns (\<lambda>(d', ret_event).
      \<forall>v. map_of d ''contexts'' = Some v \<longrightarrow> map_of ret_event ''contexts'' = Some v)
     (fix_for_issue_platform E d)"
  unfolding fix_for_issue_platform_def Let_def
  by (intro returns_bnd_slot_default [where k = "''contexts''"] returns_bnd_sdk
        returns_bnd_drop returns_ret)
     (auto simp: update_conv')

lemma fix_returns_tags:
  "returns (\<lambda>(d', ret_event).
      \<forall>v. map_of d ''tags'' = Some v \<longrightarrow> map_of ret_event ''tags'' = Some v)
     (fix_for_issue_platform E d)"
  unfolding fix_for_issue_platform_def Let_def
  by (intro returns_bnd_slot_default [where k = "''tags''"] returns_bnd_sdk
        returns_bnd_drop returns_ret)
     (auto simp: update_conv')

lemmas fix_example_defs = feedback_event_def feedback_state_def fixed_event_def
  str_int_def str_nat.simps hex_digit_def

lemma example_fix_run:
  "fix_for_issue_platform example_env (feedback_event (AText ''1.0''))
     (feedback_state (JObj [(''id'', JInt 42), (''name'', JStr ''Ann''),
                            (''isStaff'', JBool True)]))
   = (Inr (AList.delete ''dist'' (feedback_event (AText ''1.0'')), fixed_event), [],
      \<lparr>heap = (\<lambda>a. JNone)
         (0 := JObj [(''feedback'', JObj [(''message'', JStr ''hi''),
                                         (''contact_email'', JStr ''a@b.c'')])],
          2 := JArr [], 3 := JObj [],
          1 := JObj [(''id'', JStr ''42''), (''email'', JStr ''a@b.c'')],
          4 := JObj [(''message'', JStr ''hi'')]),
       nxt = 5, drawn = 0\<rparr>)"
  by (simp add: run_defs model_defs example_defs fix_example_defs)

lemma example_fix_run_null:
  "fix_for_issue_platform example_env (feedback_event ANone)
     (feedback_state (JObj [(''name'', JNone), (''isStaff'', JNone)]))
   = (Inr (feedback_event ANone, fixed_event), [],
      \<lparr>heap = (\<lambda>a. JNone)
         (0 := JObj [(''feedback'', JObj [(''message'', JStr ''hi''),
                                         (''contact_email'', JStr ''a@b.c'')])],
          2 := JArr [], 3 := JObj [],
          1 := JObj [(''name'', JNone), (''isStaff'', JNone), (''email'', JStr ''a@b.c'')],
          4 := JObj [(''message'', JStr ''hi'')]),
       nxt = 5, drawn = 0\<rparr>)"
  by (simp add: run_defs model_defs example_defs fix_example_defs)

section \<open>Runs and the store\<close>

lemma bnd_returns:
  assumes "result (bnd m f) s = Inr y"
  shows "\<exists>x. result m s = Inr x \<and> result (f x) (final m s) = Inr y
             \<and> final (bnd m f) s = final (f x) (final m s)"
proof -
  obtain r es s' where m: "m s = (r, es, s')" by (cases "m s") auto
  show ?thesis
  proof (cases r)
    case (Inl e)
    with assms m show ?thesis by (simp add: result_def bnd_def)
  next
    case (Inr x)
    obtain r' es' s'' where f: "f x s' = (r', es', s'')" by (cases "f x s'") auto
    with assms m Inr show ?thesis by (simp add: result_def final_def bnd_def)
  qed
qed

lemma final_bnd:
  "final (bnd m f) s =
     (case result m s of Inl e \<Rightarrow> final m s | Inr x \<Rightarrow> final (f x) (final m s))"
proof -
  obtain r es s' where m: "m s = (r, es, s')" by (cases "m s") auto
  show ?thesis
  proof (cases r)
    case (Inl e)
    with m show ?thesis by (simp add: result_def final_def bnd_def)
  next
    case (Inr x)
    obtain r' es' s'' where f: "f x s' = (r', es', s'')" by (cases "f x s'") auto
    with m Inr show ?thesis by (simp add: result_def final_def bnd_def)
  qed
qed

lemma hoare_bnd:
  assumes "hoare P m R" and "\<And>x. hoare (R x) (f x) Q"
  shows "hoare P (bnd m f) Q"
  unfolding hoare_def
proof (intro allI impI)
  fix s y
  assume P: "P s" and r: "result (bnd m f) s = Inr y"
  from bnd_returns [OF r] obtain x where x: "result m s = Inr x"
    "result (f x) (final m s) = Inr y" "final (bnd m f) s = final (f x) (final m s)"
    by blast
  from assms(1) P x(1) have "R x (final m s)" by (simp add: hoare_def)
  with assms(2) [of x] x(2) have "Q y (final (f x) (final m s))" by (simp add: hoare_def)
  with x(3) show "Q y (final (bnd m f) s)" by simp
qed

lemma hoare_keep:
  assumes "preserves J m" and "\<And>x. hoare J (f x) Q"
  shows "hoare J (bnd m f) Q"
proof (rule hoare_bnd [where R = "\<lambda>x. J"])
  from assms(1) show "hoare J m (\<lambda>x. J)" by (simp add: hoare_def preserves_def)
qed (rule assms(2))

lemma hoare_ret: "(\<And>s. P s \<Longrightarrow> Q x s) \<Longrightarrow> hoare P (ret x) Q"
  by (simp add: hoare_def result_def final_def ret_def)

lemma hoare_bnd_lift:
  "(\<And>x. r = Inr x \<Longrightarrow> hoare P (f x) Q) \<Longrightarrow> hoare P (bnd (lift r) f) Q"
  by (cases r) (simp_all add: hoare_def result_def final_def bnd_def lift_def ret_def throw_def)

lemma hoare_bnd_slot_known:
  "map_of d k = Some v \<Longrightarrow> hoare P (f v) Q \<Longrightarrow> hoare P (bnd (slot_default d k m) f) Q"
  by (simp add: hoare_def result_def final_def bnd_def slot_default_def ret_def)

lemma hoare_bnd_choice:
  "(\<And>x. x = a \<or> x = b \<Longrightarrow> hoare P (f x) Q)
   \<Longrightarrow> hoare P (bnd (with_heap (\<lambda>h. if c h then ret a else ret b)) f) Q"
  by (simp add: hoare_def result_def final_def bnd_def with_heap_def ret_def)

lemma preserves_ret: "preserves J (ret x)"
  by (simp add: preserves_def final_def ret_def)

lemma preserves_throw: "preserves J (throw e)"
  by (simp add: preserves_def final_def throw_def)

lemma preserves_lift: "preserves J (lift r)"
  by (cases r) (simp_all add: lift_def preserves_ret preserves_throw)

lemma preserves_bnd:
  "preserves J m \<Longrightarrow> (\<And>x. preserves J (f x)) \<Longrightarrow> preserves J (bnd m f)"
  by (auto simp: preserves_def final_bnd split: sum.splits)

lemma preserves_with_heap: "(\<And>h. preserves J (f h)) \<Longrightarrow> preserves J (with_heap f)"
  by (simp add: preserves_def final_def with_heap_def)

lemma preserves_slot: "preserves J (slot d k)"
  by (simp add: slot_def preserves_ret preserves_throw split: option.splits)

lemma preserves_slot_default: "preserves J dflt \<Longrightarrow> preserves J (slot_default d k dflt)"
  by (simp add: slot_default_def preserves_ret split: option.splits)

lemma preserves_if:
  "(c \<Longrightarrow> preserves J a) \<Longrightarrow> (\<not> c \<Longrightarrow> preserves J b) \<Longrightarrow> preserves J (if c then a else b)"
  by simp

lemma preserves_conj:
  "preserves A m \<Longrightarrow> preserves B m \<Longrightarrow> preserves (\<lambda>s. A s \<and> B s) m"
  by (simp add: preserves_def)

lemmas preserves_intros =
  preserves_ret preserves_throw preserves_lift preserves_bnd preserves_with_heap
  preserves_slot preserves_slot_default preserves_if

text \<open>An allocation is at a new address, and the replay bridge writes to the contexts.\<close>

lemma holds_user_alloc: "preserves (holds_user u user) (alloc v)"
  by (simp add: preserves_def final_def alloc_def holds_user_def)

lemma holds_feedback_alloc: "preserves (holds_feedback c fb) (alloc v)"
  by (simp add: preserves_def final_def alloc_def holds_feedback_def)

lemma allocated_from_alloc: "preserves (allocated_from n) (alloc v)"
  by (simp add: preserves_def final_def alloc_def allocated_from_def)

lemma holds_user_set_item: "u \<noteq> c \<Longrightarrow> preserves (holds_user u user) (set_item (Ref c) k v)"
  by (auto simp: preserves_def final_def set_item_def holds_user_def split: jval.splits)

lemma holds_feedback_set_replay:
  "preserves (holds_feedback c fb) (set_item (Ref c) ''replay'' v)"
  by (auto simp: preserves_def final_def set_item_def holds_feedback_def update_conv'
           split: jval.splits)

lemma allocated_from_set_item: "preserves (allocated_from n) (set_item x k v)"
  by (auto simp: preserves_def final_def set_item_def allocated_from_def throw_def
           split: sval.splits jval.splits)

lemmas store_intros =
  holds_user_alloc holds_feedback_alloc allocated_from_alloc holds_user_set_item
  holds_feedback_set_replay allocated_from_set_item

section \<open>The user dictionary\<close>

text \<open>The steps of \<^verbatim>\<open>fix_for_issue_platform\<close> on the user of an argument that has one.\<close>

lemma hoare_user_drop:
  assumes "map_of d ''user'' = Some (Ref u)" and "u \<noteq> c"
  shows "hoare (\<lambda>s. holds_user u user s \<and> holds_feedback c fb s)
           (with_heap (\<lambda>h.
              bnd (lift (py_get (top_get_default h d ''user'' (JObj [])) k)) (\<lambda>v.
              if v \<noteq> JNone then bnd (slot d ''user'') (\<lambda>user. del_item user k)
              else ret ())))
           (\<lambda>_ s. holds_user u (drop_unless_none k user) s \<and> holds_feedback c fb s)"
  using assms
  by (auto simp: hoare_def result_def final_def run_defs top_get_default_def py_get_def
        field_value_def holds_user_def holds_feedback_def drop_unless_none_def
        split: option.splits dest: map_of_SomeD)

lemma hoare_user_id:
  assumes "map_of d ''user'' = Some (Ref u)" and "u \<noteq> c"
  shows "hoare (\<lambda>s. holds_user u user s \<and> holds_feedback c fb s)
           (with_heap (\<lambda>h.
              bnd (lift (py_get (top_get_default h d ''user'' (JObj [])) ''id'')) (\<lambda>uid.
              if uid \<noteq> JNone then
                bnd (slot d ''user'') (\<lambda>user.
                bnd (with_heap (\<lambda>h. lift (py_item (resolve h user) ''id''))) (\<lambda>uid.
                set_item user ''id'' (JAtom (AStr (py_str E uid)))))
              else ret ())))
           (\<lambda>_ s. holds_user u (id_to_str E user) s \<and> holds_feedback c fb s)"
  using assms
  by (auto simp: hoare_def result_def final_def run_defs top_get_default_def py_get_def
        field_value_def holds_user_def holds_feedback_def id_to_str_def
        split: option.splits)

lemma hoare_user_email:
  assumes "u \<noteq> c"
  shows "hoare (\<lambda>s. holds_user u user s \<and> holds_feedback c fb s)
           (with_heap (\<lambda>h.
              bnd (lift (py_get_default (resolve h (Ref u)) ''email'' (JStr []))) (\<lambda>email.
              if \<not> truthy email then set_item (Ref u) ''email'' ce else ret ())))
           (\<lambda>_ s. holds_user u (backfill_email ce user) s \<and> holds_feedback c fb s)"
  using assms
  by (auto simp: hoare_def result_def final_def run_defs holds_user_def holds_feedback_def
        backfill_email_def email_of_def split: option.splits)

lemma hoare_bnd_feedback:
  assumes "map_of d ''contexts'' = Some (Ref c)"
    and "hoare (\<lambda>s. A s \<and> holds_feedback c fb s)
           (f (case fb of None \<Rightarrow> JObj [] | Some v \<Rightarrow> v)) Q"
  shows "hoare (\<lambda>s. A s \<and> holds_feedback c fb s)
           (bnd (with_heap (\<lambda>h.
              lift (py_get_default (top_get_default h d ''contexts'' (JObj []))
                      ''feedback'' (JObj [])))) f) Q"
  using assms
  by (auto simp: hoare_def result_def final_def run_defs top_get_default_def
        holds_feedback_def split: option.splits)

lemma preserves_user_absent:
  "map_of d ''user'' = None \<Longrightarrow>
   preserves J (with_heap (\<lambda>h.
     bnd (lift (py_get (top_get_default h d ''user'' (JObj [])) k)) (\<lambda>v.
     if v \<noteq> JNone then g v else ret ())))"
  by (simp add: preserves_def final_def run_defs top_get_default_def py_get_def)

lemma contact_email_of_feedback:
  "py_get (case map_of contexts ''feedback'' of None \<Rightarrow> JObj [] | Some v \<Rightarrow> v)
     ''contact_email'' = Inr x
   \<Longrightarrow> x = contact_email_of contexts"
  by (cases "case map_of contexts ''feedback'' of None \<Rightarrow> JObj [] | Some v \<Rightarrow> v")
     (auto simp: py_get_def contact_email_of_def field_value_def split: option.splits)

lemma fix_user_present:
  assumes usr: "map_of d ''user'' = Some (Ref u)"
    and ctx: "map_of d ''contexts'' = Some (Ref c)"
    and ne: "u \<noteq> c"
  shows "hoare (\<lambda>s. holds_user u user s \<and> holds_feedback c (map_of contexts ''feedback'') s)
     (bnd (with_heap (\<lambda>h.
            if top_get h d ''dist'' \<noteq> JNone
            then ret (AList.delete ''dist'' d) else ret d)) (\<lambda>event_data.
      bnd (with_heap (\<lambda>h.
            bnd (lift (py_get (top_get_default h event_data ''user'' (JObj [])) ''name''))
              (\<lambda>name.
            if name \<noteq> JNone then
              bnd (slot event_data ''user'') (\<lambda>user. del_item user ''name'')
            else ret ()))) (\<lambda>_.
      bnd (with_heap (\<lambda>h.
            bnd (lift (py_get (top_get_default h event_data ''user'' (JObj [])) ''isStaff''))
              (\<lambda>is_staff.
            if is_staff \<noteq> JNone then
              bnd (slot event_data ''user'') (\<lambda>user. del_item user ''isStaff'')
            else ret ()))) (\<lambda>_.
      bnd (with_heap (\<lambda>h.
            bnd (lift (py_get (top_get_default h event_data ''user'' (JObj [])) ''id''))
              (\<lambda>uid.
            if uid \<noteq> JNone then
              bnd (slot event_data ''user'') (\<lambda>user.
              bnd (with_heap (\<lambda>h. lift (py_item (resolve h user) ''id''))) (\<lambda>uid.
              set_item user ''id'' (JAtom (AStr (py_str E uid)))))
            else ret ()))) (\<lambda>_.
      bnd (with_heap (\<lambda>h.
            lift (py_get_default (top_get_default h event_data ''contexts'' (JObj []))
                    ''feedback'' (JObj [])))) (\<lambda>feedback_obj.
      bnd (lift (py_get feedback_obj ''contact_email'')) (\<lambda>contact_email.
      bnd (with_heap (\<lambda>h.
            bnd (lift (py_get_default (resolve h (Ref u)) ''email'' (JStr []))) (\<lambda>email.
            if \<not> truthy email then set_item (Ref u) ''email'' contact_email
            else ret ()))) (\<lambda>_.
      bnd (lift (py_get feedback_obj ''message'')) (\<lambda>message.
      bnd (alloc (JObj [(''message'', message)])) (\<lambda>logentry.
      ret (event_data, AList.update ''logentry'' logentry re)))))))))))
     (\<lambda>(d', ret_event) s.
        heap s u = JObj (fixed_user E (contact_email_of contexts) user))"
  apply (rule hoare_bnd_choice)
  subgoal premises p for x
  proof -
    from p usr have xu: "map_of x ''user'' = Some (Ref u)"
      by (auto simp: delete_conv')
    from p ctx have xc: "map_of x ''contexts'' = Some (Ref c)"
      by (auto simp: delete_conv')
    show ?thesis
      apply (rule hoare_bnd [OF hoare_user_drop [OF xu ne]])
      apply (rule hoare_bnd [OF hoare_user_drop [OF xu ne]])
      apply (rule hoare_bnd [OF hoare_user_id [OF xu ne]])
      apply (rule hoare_bnd_feedback [OF xc])
      apply (rule hoare_bnd_lift)
      apply (rule hoare_bnd [OF hoare_user_email [OF ne]])
      apply (rule hoare_bnd_lift)
      apply (rule hoare_keep)
       apply (intro preserves_conj store_intros)
      apply (rule hoare_ret)
      apply (auto simp: holds_user_def fixed_user_def dest: contact_email_of_feedback)
      done
  qed
  done

lemma fix_user_absent:
  assumes usr: "map_of d ''user'' = None"
    and ctx: "map_of d ''contexts'' = Some (Ref c)"
    and ne: "r \<noteq> c"
    and n: "n \<le> r"
    and re: "map_of re ''user'' = Some (Ref r)"
  shows "hoare (\<lambda>s. holds_user r [] s \<and> holds_feedback c (map_of contexts ''feedback'') s)
     (bnd (with_heap (\<lambda>h.
            if top_get h d ''dist'' \<noteq> JNone
            then ret (AList.delete ''dist'' d) else ret d)) (\<lambda>event_data.
      bnd (with_heap (\<lambda>h.
            bnd (lift (py_get (top_get_default h event_data ''user'' (JObj [])) ''name''))
              (\<lambda>name.
            if name \<noteq> JNone then
              bnd (slot event_data ''user'') (\<lambda>user. del_item user ''name'')
            else ret ()))) (\<lambda>_.
      bnd (with_heap (\<lambda>h.
            bnd (lift (py_get (top_get_default h event_data ''user'' (JObj [])) ''isStaff''))
              (\<lambda>is_staff.
            if is_staff \<noteq> JNone then
              bnd (slot event_data ''user'') (\<lambda>user. del_item user ''isStaff'')
            else ret ()))) (\<lambda>_.
      bnd (with_heap (\<lambda>h.
            bnd (lift (py_get (top_get_default h event_data ''user'' (JObj [])) ''id''))
              (\<lambda>uid.
            if uid \<noteq> JNone then
              bnd (slot event_data ''user'') (\<lambda>user.
              bnd (with_heap (\<lambda>h. lift (py_item (resolve h user) ''id''))) (\<lambda>uid.
              set_item user ''id'' (JAtom (AStr (py_str E uid)))))
            else ret ()))) (\<lambda>_.
      bnd (with_heap (\<lambda>h.
            lift (py_get_default (top_get_default h event_data ''contexts'' (JObj []))
                    ''feedback'' (JObj [])))) (\<lambda>feedback_obj.
      bnd (lift (py_get feedback_obj ''contact_email'')) (\<lambda>contact_email.
      bnd (with_heap (\<lambda>h.
            bnd (lift (py_get_default (resolve h (Ref r)) ''email'' (JStr []))) (\<lambda>email.
            if \<not> truthy email then set_item (Ref r) ''email'' contact_email
            else ret ()))) (\<lambda>_.
      bnd (lift (py_get feedback_obj ''message'')) (\<lambda>message.
      bnd (alloc (JObj [(''message'', message)])) (\<lambda>logentry.
      ret (event_data, AList.update ''logentry'' logentry re)))))))))))
     (\<lambda>(d', ret_event) s.
        map_of d' ''user'' = None
        \<and> (\<exists>r. n \<le> r \<and> map_of ret_event ''user'' = Some (Ref r)
                \<and> heap s r = JObj [(''email'', contact_email_of contexts)]))"
  apply (rule hoare_bnd_choice)
  subgoal premises p for x
  proof -
    from p usr have xu: "map_of x ''user'' = None"
      by (auto simp: delete_conv')
    from p ctx have xc: "map_of x ''contexts'' = Some (Ref c)"
      by (auto simp: delete_conv')
    show ?thesis
      apply (rule hoare_keep [OF preserves_user_absent [OF xu]])
      apply (rule hoare_keep [OF preserves_user_absent [OF xu]])
      apply (rule hoare_keep [OF preserves_user_absent [OF xu]])
      apply (rule hoare_bnd_feedback [OF xc])
      apply (rule hoare_bnd_lift)
      apply (rule hoare_bnd [OF hoare_user_email [OF ne]])
      apply (rule hoare_bnd_lift)
      apply (rule hoare_keep)
       apply (intro preserves_conj store_intros)
      apply (rule hoare_ret)
      using xu n re
      apply (auto simp: holds_user_def backfill_email_def email_of_def update_conv'
                  dest: contact_email_of_feedback)
      done
  qed
  done

lemma hoare_bnd_alloc_user:
  assumes "map_of d k = None"
    and "\<And>r. n \<le> r \<Longrightarrow> r \<noteq> c
           \<Longrightarrow> hoare (\<lambda>s. holds_user r [] s \<and> holds_feedback c fb s) (f (Ref r)) Q"
  shows "hoare (\<lambda>s. allocated_from n s \<and> holds_feedback c fb s)
           (bnd (slot_default d k (alloc (JObj []))) f) Q"
  unfolding hoare_def
proof (intro allI impI)
  fix s y
  assume P: "allocated_from n s \<and> holds_feedback c fb s"
    and r: "result (bnd (slot_default d k (alloc (JObj []))) f) s = Inr y"
  let ?s = "s\<lparr>heap := (heap s)(nxt s := JObj []), nxt := Suc (nxt s)\<rparr>"
  from assms(1) have run: "slot_default d k (alloc (JObj [])) s = (Inr (Ref (nxt s)), [], ?s)"
    by (simp add: slot_default_def alloc_def)
  from P have a: "n \<le> nxt s" "nxt s \<noteq> c"
    by (auto simp: allocated_from_def holds_feedback_def)
  from P have pre: "holds_user (nxt s) [] ?s \<and> holds_feedback c fb ?s"
    by (auto simp: holds_user_def holds_feedback_def)
  from r run have "result (f (Ref (nxt s))) ?s = Inr y"
    by (cases "f (Ref (nxt s)) ?s") (simp add: result_def bnd_def)
  with assms(2) [OF a] pre have "Q y (final (f (Ref (nxt s))) ?s)"
    by (simp add: hoare_def)
  moreover from run have "final (bnd (slot_default d k (alloc (JObj []))) f) s
      = final (f (Ref (nxt s))) ?s"
    by (cases "f (Ref (nxt s)) ?s") (simp add: final_def bnd_def)
  ultimately show "Q y (final (bnd (slot_default d k (alloc (JObj []))) f) s)" by simp
qed

section \<open>\<^verbatim>\<open>fix_for_issue_platform\<close> and the store\<close>

lemma fix_store_user:
  assumes usr: "map_of d ''user'' = Some (Ref u)"
    and ctx: "map_of d ''contexts'' = Some (Ref c)"
    and ne: "u \<noteq> c"
  shows "hoare (\<lambda>s. holds_user u user s \<and> holds_feedback c (map_of contexts ''feedback'') s)
     (fix_for_issue_platform E d)
     (\<lambda>(d', ret_event) s.
        heap s u = JObj (fixed_user E (contact_email_of contexts) user))"
  unfolding fix_for_issue_platform_def Let_def
  by (intro fix_user_present [OF usr ctx ne] hoare_bnd_slot_known [OF ctx]
        hoare_bnd_slot_known [OF usr] hoare_keep preserves_conj preserves_intros store_intros)
     (simp_all add: ne)

lemma fix_store_no_user:
  assumes usr: "map_of d ''user'' = None"
    and ctx: "map_of d ''contexts'' = Some (Ref c)"
  shows "hoare (\<lambda>s. allocated_from n s \<and> holds_feedback c (map_of contexts ''feedback'') s)
     (fix_for_issue_platform E d)
     (\<lambda>(d', ret_event) s.
        map_of d' ''user'' = None
        \<and> (\<exists>r. n \<le> r \<and> map_of ret_event ''user'' = Some (Ref r)
                \<and> heap s r = JObj [(''email'', contact_email_of contexts)]))"
  unfolding fix_for_issue_platform_def Let_def
  by (intro fix_user_absent [OF usr ctx] hoare_bnd_slot_known [OF ctx]
        hoare_bnd_alloc_user [OF usr] hoare_keep preserves_conj preserves_intros store_intros)
     (simp_all add: update_conv')

lemma fixed_user_name:
  "map_of (fixed_user E ce user) ''name''
     = (if field_value user ''name'' = JNone then map_of user ''name'' else None)"
  by (simp add: fixed_user_def backfill_email_def id_to_str_def drop_unless_none_def
        update_conv' delete_conv')

lemma fixed_user_isStaff:
  "map_of (fixed_user E ce user) ''isStaff''
     = (if field_value user ''isStaff'' = JNone then map_of user ''isStaff'' else None)"
  by (simp add: fixed_user_def backfill_email_def id_to_str_def drop_unless_none_def
        update_conv' delete_conv' field_value_def)

lemma fixed_user_id:
  "map_of (fixed_user E ce user) ''id''
     = (if field_value user ''id'' = JNone then map_of user ''id''
        else Some (JAtom (AStr (py_str E (field_value user ''id'')))))"
  by (simp add: fixed_user_def backfill_email_def id_to_str_def drop_unless_none_def
        update_conv' delete_conv' field_value_def)

lemma fixed_user_email:
  "map_of (fixed_user E ce user) ''email''
     = (if truthy (email_of user) then map_of user ''email'' else Some ce)"
  by (simp add: fixed_user_def backfill_email_def id_to_str_def drop_unless_none_def
        update_conv' delete_conv' field_value_def email_of_def)

lemma fixed_user_other:
  "k \<notin> {''name'', ''isStaff'', ''id'', ''email''}
   \<Longrightarrow> map_of (fixed_user E ce user) k = map_of user k"
  by (simp add: fixed_user_def backfill_email_def id_to_str_def drop_unless_none_def
        update_conv' delete_conv')

text \<open>
  C10 (as the code has it).  \<^verbatim>\<open>fix_for_issue_platform\<close> has no outside effect and changes
  its argument in place.  When it returns: the top-level \<^verbatim>\<open>dist\<close> key is deleted when its
  value is not None and kept when it is None, and nothing else at the top level changes.
  The returned event's \<^verbatim>\<open>contexts\<close>, \<^verbatim>\<open>user\<close> and \<^verbatim>\<open>tags\<close> are the argument's own objects
  whenever the argument has these keys.  The argument's user object, which is also the
  returned event's, ends as follows: \<^verbatim>\<open>name\<close> and \<^verbatim>\<open>isStaff\<close> are deleted when their value
  is not None and kept when it is None; \<^verbatim>\<open>id\<close> is replaced by its string when it is not
  None and kept otherwise; \<^verbatim>\<open>email\<close> is kept when it is truthy and otherwise set to the
  contact e-mail of the feedback context, to None when there is none; every other key is as
  before.  An argument without \<^verbatim>\<open>user\<close> still has none afterwards, and the returned event
  then holds an object allocated by the call, holding the backfilled \<^verbatim>\<open>email\<close> only.  The
  argument's objects are allocated ones, and its user is not its contexts object.
\<close>

theorem fix_for_issue_platform_mutates_argument:
  assumes run: "fix_for_issue_platform E d s = (Inr (d', ret_event), es, s')"
    and wf: "\<forall>k r. map_of d k = Some (Ref r) \<longrightarrow> r < nxt s"
    and ctx: "map_of d ''contexts'' = Some (Ref c)"
    and cd: "heap s c = JObj contexts"
    and ne: "map_of d ''user'' \<noteq> Some (Ref c)"
  shows "es = []
     \<and> (d' = d \<or> d' = AList.delete ''dist'' d)
     \<and> (map_of d ''dist'' = Some (Imm ANone) \<longrightarrow> d' = d)
     \<and> (\<forall>a. map_of d ''dist'' = Some (Imm a) \<longrightarrow> a \<noteq> ANone
            \<longrightarrow> d' = AList.delete ''dist'' d)
     \<and> (\<forall>v. map_of d ''contexts'' = Some v \<longrightarrow> map_of ret_event ''contexts'' = Some v)
     \<and> (\<forall>v. map_of d ''user'' = Some v \<longrightarrow> map_of ret_event ''user'' = Some v)
     \<and> (\<forall>v. map_of d ''tags'' = Some v \<longrightarrow> map_of ret_event ''tags'' = Some v)
     \<and> (\<forall>u user. map_of d ''user'' = Some (Ref u) \<longrightarrow> heap s u = JObj user \<longrightarrow>
          (\<exists>user'. heap s' u = JObj user'
             \<and> user' = fixed_user E (contact_email_of contexts) user
             \<and> map_of user' ''name''
                 = (if field_value user ''name'' = JNone then map_of user ''name'' else None)
             \<and> map_of user' ''isStaff''
                 = (if field_value user ''isStaff'' = JNone then map_of user ''isStaff''
                    else None)
             \<and> map_of user' ''id''
                 = (if field_value user ''id'' = JNone then map_of user ''id''
                    else Some (JAtom (AStr (py_str E (field_value user ''id'')))))
             \<and> map_of user' ''email''
                 = (if truthy (email_of user) then map_of user ''email''
                    else Some (contact_email_of contexts))
             \<and> (\<forall>k. k \<notin> {''name'', ''isStaff'', ''id'', ''email''}
                    \<longrightarrow> map_of user' k = map_of user k)))
     \<and> (map_of d ''user'' = None \<longrightarrow>
          map_of d' ''user'' = None
          \<and> (\<exists>r. nxt s \<le> r \<and> map_of ret_event ''user'' = Some (Ref r)
                  \<and> heap s' r = JObj [(''email'', contact_email_of contexts)]))"
proof -
  from run have res: "result (fix_for_issue_platform E d) s = Inr (d', ret_event)"
    and fin: "final (fix_for_issue_platform E d) s = s'"
    and eff: "effects (fix_for_issue_platform E d) s = es"
    by (simp_all add: result_def final_def effects_def)
  from res have r: "may_return (fix_for_issue_platform E d) (d', ret_event)"
    unfolding may_return_def by blast
  have "list_all (\<lambda>e. False) (effects (fix_for_issue_platform E d) s)"
    using fix_silent [of "\<lambda>e. False" E d] by (simp add: emits_only_def)
  with eff have silent: "es = []"
    by (cases es) simp_all
  from r fix_returns_dist [of d E]
  have dist: "(d' = d \<or> d' = AList.delete ''dist'' d)
      \<and> (map_of d ''dist'' = Some (Imm ANone) \<longrightarrow> d' = d)
      \<and> (\<forall>a. map_of d ''dist'' = Some (Imm a) \<longrightarrow> a \<noteq> ANone
             \<longrightarrow> d' = AList.delete ''dist'' d)"
    unfolding returns_def by blast
  from r fix_returns_user [of d E]
  have user: "\<forall>v. map_of d ''user'' = Some v \<longrightarrow> map_of ret_event ''user'' = Some v"
    unfolding returns_def by blast
  from r fix_returns_contexts [of d E]
  have contexts: "\<forall>v. map_of d ''contexts'' = Some v \<longrightarrow> map_of ret_event ''contexts'' = Some v"
    unfolding returns_def by blast
  from r fix_returns_tags [of d E]
  have tags: "\<forall>v. map_of d ''tags'' = Some v \<longrightarrow> map_of ret_event ''tags'' = Some v"
    unfolding returns_def by blast
  from wf ctx have c: "c < nxt s" by blast
  with cd have fb: "holds_feedback c (map_of contexts ''feedback'') s"
    by (simp add: holds_feedback_def)
  have present: "\<exists>user'. heap s' u = JObj user'
             \<and> user' = fixed_user E (contact_email_of contexts) user
             \<and> map_of user' ''name''
                 = (if field_value user ''name'' = JNone then map_of user ''name'' else None)
             \<and> map_of user' ''isStaff''
                 = (if field_value user ''isStaff'' = JNone then map_of user ''isStaff''
                    else None)
             \<and> map_of user' ''id''
                 = (if field_value user ''id'' = JNone then map_of user ''id''
                    else Some (JAtom (AStr (py_str E (field_value user ''id'')))))
             \<and> map_of user' ''email''
                 = (if truthy (email_of user) then map_of user ''email''
                    else Some (contact_email_of contexts))
             \<and> (\<forall>k. k \<notin> {''name'', ''isStaff'', ''id'', ''email''}
                    \<longrightarrow> map_of user' k = map_of user k)"
    if u: "map_of d ''user'' = Some (Ref u)" and h: "heap s u = JObj user" for u user
  proof -
    from u ne have "u \<noteq> c" by auto
    moreover from wf u h have "holds_user u user s" by (simp add: holds_user_def)
    ultimately have e: "heap s' u = JObj (fixed_user E (contact_email_of contexts) user)"
      using fix_store_user [OF u ctx, of user contexts E] fb res fin
      by (auto simp: hoare_def)
    show ?thesis
      apply (rule exI [where x = "fixed_user E (contact_email_of contexts) user"])
      apply (intro conjI allI impI e refl fixed_user_name fixed_user_isStaff fixed_user_id
               fixed_user_email fixed_user_other)
      apply assumption
      done
  qed
  have absent: "map_of d' ''user'' = None
      \<and> (\<exists>r. nxt s \<le> r \<and> map_of ret_event ''user'' = Some (Ref r)
              \<and> heap s' r = JObj [(''email'', contact_email_of contexts)])"
    if u: "map_of d ''user'' = None"
    using fix_store_no_user [OF u ctx, of "nxt s" contexts E] fb res fin
    by (auto simp: hoare_def allocated_from_def)
  show ?thesis
    by (intro conjI allI impI present absent silent user [rule_format]
          contexts [rule_format] tags [rule_format])
       (use dist in blast)+
qed

text \<open>
  On the sample event with a user whose \<^verbatim>\<open>name\<close>, \<^verbatim>\<open>isStaff\<close> and \<^verbatim>\<open>id\<close> are set, the
  caller's user object loses the first two, has the third as a string and gains the
  contact e-mail.
\<close>

theorem fix_for_issue_platform_mutates_argument_witness:
  "nxt (feedback_state (JObj [(''id'', JInt 42), (''name'', JStr ''Ann''),
                              (''isStaff'', JBool True)])) = 2
   \<and> map_of (feedback_event (AText ''1.0'')) ''contexts'' = Some (Ref 0)
   \<and> map_of (feedback_event (AText ''1.0'')) ''user'' = Some (Ref 1)
   \<and> (\<exists>user'.
        heap (final (fix_for_issue_platform example_env (feedback_event (AText ''1.0'')))
                (feedback_state (JObj [(''id'', JInt 42), (''name'', JStr ''Ann''),
                                       (''isStaff'', JBool True)]))) 1 = JObj user'
        \<and> map_of user' ''name'' = None \<and> map_of user' ''isStaff'' = None
        \<and> map_of user' ''id'' = Some (JStr ''42'')
        \<and> map_of user' ''email'' = Some (JStr ''a@b.c''))"
proof -
  let ?user = "[(''id'', JInt 42), (''name'', JStr ''Ann''), (''isStaff'', JBool True)]"
  let ?s = "feedback_state (JObj ?user)"
  let ?d = "feedback_event (AText ''1.0'')"
  let ?contexts = "[(''feedback'', JObj [(''message'', JStr ''hi''),
                                        (''contact_email'', JStr ''a@b.c'')])]"
  have wf: "\<forall>k r. map_of ?d k = Some (Ref r) \<longrightarrow> r < nxt ?s"
    by (simp add: feedback_event_def feedback_state_def)
  have ctx: "map_of ?d ''contexts'' = Some (Ref 0)"
    by (simp add: feedback_event_def)
  have cd: "heap ?s 0 = JObj ?contexts"
    by (simp add: feedback_state_def)
  have u: "map_of ?d ''user'' = Some (Ref 1)"
    by (simp add: feedback_event_def)
  hence ne: "map_of ?d ''user'' \<noteq> Some (Ref 0)"
    by simp
  have h: "heap ?s 1 = JObj ?user"
    by (simp add: feedback_state_def)
  have v: "field_value ?user ''name'' \<noteq> JNone" "field_value ?user ''isStaff'' \<noteq> JNone"
    "field_value ?user ''id'' = JInt 42" "\<not> truthy (email_of ?user)"
    "contact_email_of ?contexts = JStr ''a@b.c''" "py_str example_env (JInt 42) = ustr ''42''"
    by (simp_all add: field_value_def email_of_def contact_email_of_def str_int_def
          str_nat.simps hex_digit_def)
  from fix_for_issue_platform_mutates_argument [OF example_fix_run wf ctx cd ne]
  have "\<forall>u user. map_of ?d ''user'' = Some (Ref u) \<longrightarrow> heap ?s u = JObj user \<longrightarrow>
          (\<exists>user'. heap (final (fix_for_issue_platform example_env ?d) ?s) u = JObj user'
             \<and> user' = fixed_user example_env (contact_email_of ?contexts) user
             \<and> map_of user' ''name''
                 = (if field_value user ''name'' = JNone then map_of user ''name'' else None)
             \<and> map_of user' ''isStaff''
                 = (if field_value user ''isStaff'' = JNone then map_of user ''isStaff''
                    else None)
             \<and> map_of user' ''id''
                 = (if field_value user ''id'' = JNone then map_of user ''id''
                    else Some (JAtom (AStr (py_str example_env (field_value user ''id'')))))
             \<and> map_of user' ''email''
                 = (if truthy (email_of user) then map_of user ''email''
                    else Some (contact_email_of ?contexts))
             \<and> (\<forall>k. k \<notin> {''name'', ''isStaff'', ''id'', ''email''}
                    \<longrightarrow> map_of user' k = map_of user k))"
    unfolding final_def example_fix_run by (elim conjE) simp
  from this [rule_format, OF u h] v
  have "\<exists>user'. heap (final (fix_for_issue_platform example_env ?d) ?s) 1 = JObj user'
        \<and> map_of user' ''name'' = None \<and> map_of user' ''isStaff'' = None
        \<and> map_of user' ''id'' = Some (JStr ''42'')
        \<and> map_of user' ''email'' = Some (JStr ''a@b.c'')"
    by simp
  with ctx u show ?thesis by (simp add: feedback_state_def)
qed

text \<open>
  A \<^verbatim>\<open>dist\<close> that is None, and a user \<^verbatim>\<open>name\<close> and \<^verbatim>\<open>isStaff\<close> that are None, are not
  deleted from the argument.
\<close>

theorem null_dist_and_name_are_kept:
  "result (fix_for_issue_platform example_env (feedback_event ANone))
       (feedback_state (JObj [(''name'', JNone), (''isStaff'', JNone)]))
     = Inr (feedback_event ANone, fixed_event)
   \<and> map_of (feedback_event ANone) ''dist'' = Some (Imm ANone)
   \<and> heap (final (fix_for_issue_platform example_env (feedback_event ANone))
             (feedback_state (JObj [(''name'', JNone), (''isStaff'', JNone)]))) 1
     = JObj [(''name'', JNone), (''isStaff'', JNone), (''email'', JStr ''a@b.c'')]"
  by (simp add: result_def final_def example_fix_run_null) (simp add: feedback_event_def)

section \<open>The legacy shim\<close>

lemma catch_all_returns: "result (catch m (\<lambda>e. emit x)) s = Inr ()"
proof -
  obtain r es s' where m: "m s = (r, es, s')" by (cases "m s") auto
  thus ?thesis by (cases r) (simp_all add: result_def catch_def emit_def)
qed

lemma create_feedback_issue_no_missing_event:
  "emits_only (\<lambda>e. e \<noteq> missing_event_counter) (create_feedback_issue E event project_id source)"
  unfolding create_feedback_issue_def Let_def
  by (intro emits_only_parts emits_only_intros) (simp_all add: missing_event_counter_def invalid_schema_counter_def)

lemma store_val_run:
  "\<exists>lv s1. store_val v s = (Inr lv, [], s1) \<and> resolve (heap s1) lv = v"
  by (cases v rule: store_val.cases) (simp_all add: ret_def alloc_def)

lemma shim_feedback_event_run:
  assumes "map_of r ''email'' = Some email" and "map_of r ''comments'' = Some comments"
  shows "\<exists>ev s1 lv. shim_feedback_event E (JObj r) None s = (Inr ev, [missing_event_counter], s1)
           \<and> map_of ev ''timestamp'' = Some (Imm (AFloat (utcnow_timestamp E)))
           \<and> map_of ev ''platform'' = Some (Imm (AText ''other''))
           \<and> map_of ev ''level'' = Some lv
           \<and> resolve (heap s1) lv
               = (case map_of r ''level'' of None \<Rightarrow> JStr ''info'' | Some v \<Rightarrow> v)"
proof -
  let ?level = "case map_of r ''level'' of None \<Rightarrow> JStr ''info'' | Some v \<Rightarrow> v"
  from store_val_run [of ?level s] obtain lv s1
    where lv: "store_val ?level s = (Inr lv, [], s1)" "resolve (heap s1) lv = ?level"
    by blast
  have lv': "resolve ((heap s1)(nxt s1 := x)) lv = ?level" for x
    using lv by (cases ?level rule: store_val.cases) (auto simp: ret_def alloc_def)
  show ?thesis
    using assms lv lv'
    by (auto simp: shim_feedback_event_def run_defs py_get_def missing_event_counter_def Let_def
             split: option.splits)
qed

lemma count_list_absent: "list_all (\<lambda>e. e \<noteq> x) es \<Longrightarrow> count_list es x = 0"
  by (induction es) auto

lemma shim_to_feedback_run:
  assumes "shim_feedback_event E report None s = (Inr ev, es1, s1)"
  shows "effects (shim_to_feedback E report None project source) s
           = es1 @ effects (create_feedback_issue E ev (project_pk project) source) s1
             @ (case result (create_feedback_issue E ev (project_pk project) source) s1 of
                  Inl e \<Rightarrow> [LoggerException
                     ''Error attempting to create new User Feedback from Shiming old User Report'']
                | Inr x \<Rightarrow> [])"
proof -
  obtain r2 es2 s2
    where c: "create_feedback_issue E ev (project_pk project) source s1 = (r2, es2, s2)"
    by (cases "create_feedback_issue E ev (project_pk project) source s1") auto
  with assms show ?thesis
    by (cases r2)
       (simp_all add: shim_to_feedback_def catch_def bnd_def ret_def emit_def effects_def
          result_def)
qed

text \<open>
  C9.  \<^verbatim>\<open>shim_to_feedback\<close> never raises.  For a report that is a dictionary with its
  \<^verbatim>\<open>email\<close> and \<^verbatim>\<open>comments\<close> and no correlated event, the event synthesised has the
  current time as \<^verbatim>\<open>timestamp\<close>, \<^verbatim>\<open>other\<close> as \<^verbatim>\<open>platform\<close> and as \<^verbatim>\<open>level\<close> the report's
  \<^verbatim>\<open>level\<close> entry, \<^verbatim>\<open>info\<close> when the report has none; synthesising it counts the missing
  event, and that counter is counted exactly once in the whole call, whose effects are the
  counter, then those of \<^verbatim>\<open>create_feedback_issue\<close> on the synthesised event, then the log
  entry if that raised.
\<close>

theorem shim_without_event:
  "result (shim_to_feedback E report event project source) s = Inr ()
   \<and> (\<forall>r email comments.
        report = JObj r \<longrightarrow> map_of r ''email'' = Some email
        \<longrightarrow> map_of r ''comments'' = Some comments \<longrightarrow>
        (\<exists>ev s1 lv.
           shim_feedback_event E report None s = (Inr ev, [missing_event_counter], s1)
           \<and> map_of ev ''timestamp'' = Some (Imm (AFloat (utcnow_timestamp E)))
           \<and> map_of ev ''platform'' = Some (Imm (AText ''other''))
           \<and> map_of ev ''level'' = Some lv
           \<and> resolve (heap s1) lv
               = (case map_of r ''level'' of None \<Rightarrow> JStr ''info'' | Some v \<Rightarrow> v)
           \<and> effects (shim_to_feedback E report None project source) s
               = missing_event_counter
                 # effects (create_feedback_issue E ev (project_pk project) source) s1
                 @ (case result (create_feedback_issue E ev (project_pk project) source) s1 of
                      Inl e \<Rightarrow> [LoggerException
                        ''Error attempting to create new User Feedback from Shiming old User Report'']
                    | Inr x \<Rightarrow> []))
        \<and> count_list (effects (shim_to_feedback E report None project source) s)
              missing_event_counter = 1)"
proof (intro conjI allI impI)
  show "result (shim_to_feedback E report event project source) s = Inr ()"
    unfolding shim_to_feedback_def by (rule catch_all_returns)
next
  fix r email comments
  assume rep: "report = JObj r" and e: "map_of r ''email'' = Some email"
    and c: "map_of r ''comments'' = Some comments"
  from shim_feedback_event_run [OF e c, of E s] rep obtain ev s1 lv
    where run: "shim_feedback_event E report None s = (Inr ev, [missing_event_counter], s1)"
      and ev: "map_of ev ''timestamp'' = Some (Imm (AFloat (utcnow_timestamp E)))"
        "map_of ev ''platform'' = Some (Imm (AText ''other''))"
        "map_of ev ''level'' = Some lv"
        "resolve (heap s1) lv
           = (case map_of r ''level'' of None \<Rightarrow> JStr ''info'' | Some v \<Rightarrow> v)"
    by blast
  let ?c = "create_feedback_issue E ev (project_pk project) source"
  let ?log = "case result ?c s1 of
                Inl e \<Rightarrow> [LoggerException
                  ''Error attempting to create new User Feedback from Shiming old User Report'']
              | Inr x \<Rightarrow> []"
  from shim_to_feedback_run [OF run, of project source]
  have eff: "effects (shim_to_feedback E report None project source) s
               = missing_event_counter # effects ?c s1 @ ?log"
    by simp
  from run ev eff
  show "\<exists>ev s1 lv.
           shim_feedback_event E report None s = (Inr ev, [missing_event_counter], s1)
           \<and> map_of ev ''timestamp'' = Some (Imm (AFloat (utcnow_timestamp E)))
           \<and> map_of ev ''platform'' = Some (Imm (AText ''other''))
           \<and> map_of ev ''level'' = Some lv
           \<and> resolve (heap s1) lv
               = (case map_of r ''level'' of None \<Rightarrow> JStr ''info'' | Some v \<Rightarrow> v)
           \<and> effects (shim_to_feedback E report None project source) s
               = missing_event_counter
                 # effects (create_feedback_issue E ev (project_pk project) source) s1
                 @ (case result (create_feedback_issue E ev (project_pk project) source) s1 of
                      Inl e \<Rightarrow> [LoggerException
                        ''Error attempting to create new User Feedback from Shiming old User Report'']
                    | Inr x \<Rightarrow> [])"
    by blast
  have "list_all (\<lambda>e. e \<noteq> missing_event_counter) (effects ?c s1)"
    using create_feedback_issue_no_missing_event [of E ev "project_pk project" source]
    by (simp add: emits_only_def)
  hence "count_list (effects ?c s1) missing_event_counter = 0"
    by (rule count_list_absent)
  moreover have "count_list ?log missing_event_counter = 0"
    by (simp add: missing_event_counter_def split: sum.splits)
  ultimately show "count_list (effects (shim_to_feedback E report None project source) s)
      missing_event_counter = 1"
    by (simp add: eff)
qed

text \<open>A report with an e-mail and a comment, for the sample project and from an empty store.\<close>

theorem shim_without_event_witness:
  "result (shim_to_feedback example_env
             (JObj [(''email'', JStr ''a@b.c''), (''comments'', JStr ''hi'')]) None
             example_project USER_REPORT_ENVELOPE)
       \<lparr>heap = (\<lambda>a. JNone), nxt = 0, drawn = 0\<rparr> = Inr ()
   \<and> count_list (effects (shim_to_feedback example_env
             (JObj [(''email'', JStr ''a@b.c''), (''comments'', JStr ''hi'')]) None
             example_project USER_REPORT_ENVELOPE)
          \<lparr>heap = (\<lambda>a. JNone), nxt = 0, drawn = 0\<rparr>) missing_event_counter = 1"
  using shim_without_event
          [of example_env "JObj [(''email'', JStr ''a@b.c''), (''comments'', JStr ''hi'')]"
              None example_project USER_REPORT_ENVELOPE
              "\<lparr>heap = (\<lambda>a. JNone), nxt = 0, drawn = 0\<rparr>"]
  by simp

section \<open>What a run shows\<close>

lemma observes_bnd_step:
  assumes step: "\<And>s. K (result m s) (filter rel (effects m s))"
    and raise: "\<And>e es1. K (Inl e) es1 \<Longrightarrow> \<Phi> True (pre @ es1)"
    and cont: "\<And>x es1. K (Inr x) es1 \<Longrightarrow> observes (pre @ es1) rel \<Phi> (f x)"
  shows "observes pre rel \<Phi> (bnd m f)"
  unfolding observes_def
proof
  fix s
  obtain r es s' where m: "m s = (r, es, s')" by (cases "m s") auto
  from step [of s] m have k: "K r (filter rel es)" by (simp add: result_def effects_def)
  show "\<Phi> (isl (result (bnd m f) s)) (pre @ filter rel (effects (bnd m f) s))"
  proof (cases r)
    case (Inl e)
    with m k raise [of e "filter rel es"] show ?thesis
      by (simp add: result_def effects_def bnd_def)
  next
    case (Inr x)
    obtain r' es' s'' where f: "f x s' = (r', es', s'')" by (cases "f x s'") auto
    from cont [of x "filter rel es"] k Inr
    have "\<Phi> (isl (result (f x) s')) ((pre @ filter rel es) @ filter rel (effects (f x) s'))"
      by (simp add: observes_def)
    with m Inr f show ?thesis
      by (simp add: result_def effects_def bnd_def)
  qed
qed



lemma observes_case_prod:
  "(\<And>a b. observes pre rel \<Phi> (f a b)) \<Longrightarrow> observes pre rel \<Phi> (case p of (a, b) \<Rightarrow> f a b)"
  by (cases p) simp







lemma observes_bnd_triage:
  assumes "\<not> (c \<and> features_has ''organizations:user-feedback-spam-filter-actions'' project)
           \<Longrightarrow> observes pre rel \<Phi> (f ())"
    and "c \<Longrightarrow> features_has ''organizations:user-feedback-spam-filter-actions'' project
         \<Longrightarrow> \<not> produce_ok E (STATUS_CHANGE \<lparr> sc_fingerprint = fp,
                  sc_project_id = project_pk project, new_status = IGNORED,
                  new_substatus = FOREVER \<rparr>)
         \<Longrightarrow> \<Phi> True (pre @ filter rel
               [MetricsIncr ''feedback.spam-detection-actions.set-ignored'' [],
                ProduceOccurrenceToKafka (STATUS_CHANGE \<lparr> sc_fingerprint = fp,
                  sc_project_id = project_pk project, new_status = IGNORED,
                  new_substatus = FOREVER \<rparr>)])"
    and "c \<Longrightarrow> features_has ''organizations:user-feedback-spam-filter-actions'' project
         \<Longrightarrow> produce_ok E (STATUS_CHANGE \<lparr> sc_fingerprint = fp,
                  sc_project_id = project_pk project, new_status = IGNORED,
                  new_substatus = FOREVER \<rparr>)
         \<Longrightarrow> observes (pre @ filter rel
               [MetricsIncr ''feedback.spam-detection-actions.set-ignored'' [],
                ProduceOccurrenceToKafka (STATUS_CHANGE \<lparr> sc_fingerprint = fp,
                  sc_project_id = project_pk project, new_status = IGNORED,
                  new_substatus = FOREVER \<rparr>)]) rel \<Phi> (f ())"
  shows "observes pre rel \<Phi>
           (bnd (if c then auto_ignore_spam_feedbacks E project fp else ret ()) f)"
proof -
  let ?flag = "features_has ''organizations:user-feedback-spam-filter-actions'' project"
  let ?sc = "STATUS_CHANGE \<lparr> sc_fingerprint = fp, sc_project_id = project_pk project,
                new_status = IGNORED, new_substatus = FOREVER \<rparr>"
  let ?tri = "[MetricsIncr ''feedback.spam-detection-actions.set-ignored'' [],
               ProduceOccurrenceToKafka ?sc]"
  show ?thesis
  proof (rule observes_bnd_step
      [where K = "\<lambda>r es1. (\<not> (c \<and> ?flag) \<and> es1 = [] \<and> \<not> isl r)
                    \<or> (c \<and> ?flag \<and> es1 = filter rel ?tri \<and> (isl r \<longleftrightarrow> \<not> produce_ok E ?sc))"])
    fix s
    show "(\<not> (c \<and> ?flag)
            \<and> filter rel (effects (if c then auto_ignore_spam_feedbacks E project fp else ret ()) s) = []
            \<and> \<not> isl (result (if c then auto_ignore_spam_feedbacks E project fp else ret ()) s))
          \<or> (c \<and> ?flag
            \<and> filter rel (effects (if c then auto_ignore_spam_feedbacks E project fp else ret ()) s)
                = filter rel ?tri
            \<and> (isl (result (if c then auto_ignore_spam_feedbacks E project fp else ret ()) s)
                 \<longleftrightarrow> \<not> produce_ok E ?sc))"
      by (simp add: result_def effects_def auto_ignore_spam_feedbacks_def
            produce_occurrence_to_kafka_def bnd_def emit_def ret_def throw_def)
  next
    fix e es1
    assume "(\<not> (c \<and> ?flag) \<and> es1 = [] \<and> \<not> isl (Inl e :: error + unit))
            \<or> (c \<and> ?flag \<and> es1 = filter rel ?tri
                \<and> (isl (Inl e :: error + unit) \<longleftrightarrow> \<not> produce_ok E ?sc))"
    with assms(2) show "\<Phi> True (pre @ es1)" by auto
  next
    fix x :: unit and es1
    assume "(\<not> (c \<and> ?flag) \<and> es1 = [] \<and> \<not> isl (Inr x :: error + unit))
            \<or> (c \<and> ?flag \<and> es1 = filter rel ?tri
                \<and> (isl (Inr x :: error + unit) \<longleftrightarrow> \<not> produce_ok E ?sc))"
    with assms(1,3) show "observes (pre @ es1) rel \<Phi> (f x)" by auto
  qed
qed















end
